theory Spec2Isabelle
  imports Main
begin

section \<open>Python values used by the program\<close>

text \<open>
  A \<open>str\<close> is a list of code points and a \<open>bytes\<close> value is a list of 8-bit characters.
  The literals of the source are ASCII; \<open>ascii\<close> turns one into a \<open>str\<close> and \<open>cp\<close> gives
  the code point of a character. Exceptions are values of \<open>error\<close>; a function that can
  raise returns \<open>error + 'a\<close>, with \<open>Inl\<close> for the exception.
\<close>

type_synonym str = "nat list"

type_synonym bytes = string

definition cp :: "char \<Rightarrow> nat" where
  "cp c = of_char c"

definition ascii :: "string \<Rightarrow> str" where
  "ascii cs = map cp cs"

datatype error =
  ValueError | UnicodeDecodeError | UnicodeEncodeError | AttributeError | KeyError
  | LibraryError string

subsection \<open>The character classes of Unicode\<close>

text \<open>
  The decimal digits (category Nd) of Unicode 14.0, which CPython 3.11 has: they come in
  runs of ten, from the digit zero to the digit nine, and \<open>decimal_zeros\<close> lists the code
  points of the zeros. \<open>str.isdecimal\<close>, the class \<open>\d\<close> of \<open>re\<close> and \<open>int\<close> all use it.
\<close>

definition decimal_zeros :: "nat list" where
  "decimal_zeros =
    [48, 1632, 1776, 1984, 2406, 2534, 2662, 2790, 2918, 3046, 3174, 3302, 3430, 3558,
     3664, 3792, 3872, 4160, 4240, 6112, 6160, 6470, 6608, 6784, 6800, 6992, 7088,
     7232, 7248, 42528, 43216, 43264, 43472, 43504, 43600, 44016, 65296, 66720, 68912,
     69734, 69872, 69942, 70096, 70384, 70736, 70864, 71248, 71360, 71472, 71904,
     72016, 72784, 73040, 73120, 92768, 92864, 93008, 120782, 120792, 120802, 120812,
     120822, 123200, 123632, 125264, 130032]"

definition decimal :: "nat \<Rightarrow> nat option" where
  "decimal c = map_option (\<lambda>z. c - z) (find (\<lambda>z. z \<le> c \<and> c < z + 10) decimal_zeros)"

definition is_digit :: "nat \<Rightarrow> bool" where
  "is_digit c = (case decimal c of None \<Rightarrow> False | Some v \<Rightarrow> True)"

definition digit_val :: "nat \<Rightarrow> nat" where
  "digit_val c = (case decimal c of None \<Rightarrow> 0 | Some v \<Rightarrow> v)"

text \<open>The class \<open>\s\<close> of \<open>re\<close> on a \<open>str\<close>: the code points for which \<open>str.isspace\<close>
  holds.\<close>

definition is_space :: "nat \<Rightarrow> bool" where
  "is_space c = (c \<in> set
    [9, 10, 11, 12, 13, 28, 29, 30, 31, 32, 133, 160, 5760, 8192, 8193, 8194, 8195,
     8196, 8197, 8198, 8199, 8200, 8201, 8202, 8232, 8233, 8239, 8287, 12288])"

subsection \<open>UTF-8\<close>

text \<open>\<open>s.encode('utf-8')\<close>: one to four bytes for a code point; the surrogates cannot be
  encoded.\<close>

definition encode_point :: "nat \<Rightarrow> error + bytes" where
  "encode_point c =
     (if c < 128 then Inr [char_of c]
      else if c < 2048 then Inr [char_of (192 + c div 64), char_of (128 + c mod 64)]
      else if 55296 \<le> c \<and> c \<le> 57343 then Inl UnicodeEncodeError
      else if c < 65536 then
        Inr [char_of (224 + c div 4096), char_of (128 + c div 64 mod 64), char_of (128 + c mod 64)]
      else if c < 1114112 then
        Inr [char_of (240 + c div 262144), char_of (128 + c div 4096 mod 64),
             char_of (128 + c div 64 mod 64), char_of (128 + c mod 64)]
      else Inl UnicodeEncodeError)"

fun utf8_encode :: "str \<Rightarrow> error + bytes" where
  "utf8_encode [] = Inr []"
| "utf8_encode (c # cs) =
     (case encode_point c of
        Inl e \<Rightarrow> Inl e
      | Inr b \<Rightarrow> (case utf8_encode cs of Inl e \<Rightarrow> Inl e | Inr bs \<Rightarrow> Inr (b @ bs)))"

text \<open>\<open>b.decode('utf-8')\<close>, on the values of the bytes: the strict decoder, which refuses
  a stray continuation byte, a sequence cut short, an overlong form, a surrogate and a
  code point above 10FFFF.\<close>

definition continuation :: "nat \<Rightarrow> bool" where
  "continuation b = (128 \<le> b \<and> b \<le> 191)"

definition cons_point :: "nat \<Rightarrow> error + str \<Rightarrow> error + str" where
  "cons_point c r = (case r of Inl e \<Rightarrow> Inl e | Inr cs \<Rightarrow> Inr (c # cs))"

fun utf8_decode :: "nat list \<Rightarrow> error + str" where
  "utf8_decode [] = Inr []"
| "utf8_decode (b0 # bs) =
     (if b0 < 128 then cons_point b0 (utf8_decode bs)
      else if 194 \<le> b0 \<and> b0 \<le> 223 then
        (case bs of
           b1 # r \<Rightarrow>
             if continuation b1
             then cons_point ((b0 - 192) * 64 + (b1 - 128)) (utf8_decode r)
             else Inl UnicodeDecodeError
         | _ \<Rightarrow> Inl UnicodeDecodeError)
      else if 224 \<le> b0 \<and> b0 \<le> 239 then
        (case bs of
           b1 # b2 # r \<Rightarrow>
             if (if b0 = 224 then 160 \<le> b1 \<and> b1 \<le> 191
                 else if b0 = 237 then 128 \<le> b1 \<and> b1 \<le> 159
                 else continuation b1)
                \<and> continuation b2
             then cons_point ((b0 - 224) * 4096 + (b1 - 128) * 64 + (b2 - 128)) (utf8_decode r)
             else Inl UnicodeDecodeError
         | _ \<Rightarrow> Inl UnicodeDecodeError)
      else if 240 \<le> b0 \<and> b0 \<le> 244 then
        (case bs of
           b1 # b2 # b3 # r \<Rightarrow>
             if (if b0 = 240 then 144 \<le> b1 \<and> b1 \<le> 191
                 else if b0 = 244 then 128 \<le> b1 \<and> b1 \<le> 143
                 else continuation b1)
                \<and> continuation b2 \<and> continuation b3
             then cons_point ((b0 - 240) * 262144 + (b1 - 128) * 4096 + (b2 - 128) * 64 + (b3 - 128))
                    (utf8_decode r)
             else Inl UnicodeDecodeError
         | _ \<Rightarrow> Inl UnicodeDecodeError)
      else Inl UnicodeDecodeError)"

subsection \<open>datetime\<close>

record datetime =
  year :: nat
  month :: nat
  day :: nat
  hour :: nat
  minute :: nat
  second :: nat

definition is_leap :: "nat \<Rightarrow> bool" where
  "is_leap y = (if y mod 400 = 0 then True else if y mod 100 = 0 then False else y mod 4 = 0)"

definition days_in_month :: "nat \<Rightarrow> nat \<Rightarrow> nat" where
  "days_in_month y m =
     (if m = 2 then (if is_leap y then 29 else 28)
      else if m = 4 then 30 else if m = 6 then 30 else if m = 9 then 30 else if m = 11 then 30
      else 31)"

text \<open>The constructor \<open>datetime(y, m, d, H, M, S)\<close>: it raises ValueError outside
  \<open>MINYEAR..MAXYEAR\<close>, the months, the days of the month and the clock ranges.\<close>

definition datetime_new :: "nat \<Rightarrow> nat \<Rightarrow> nat \<Rightarrow> nat \<Rightarrow> nat \<Rightarrow> nat \<Rightarrow> error + datetime" where
  "datetime_new y m d H M S =
     (if 1 \<le> y \<and> y \<le> 9999 \<and> 1 \<le> m \<and> m \<le> 12 \<and> 1 \<le> d \<and> d \<le> days_in_month y m
         \<and> H < 24 \<and> M < 60 \<and> S < 60
      then Inr \<lparr>year = y, month = m, day = d, hour = H, minute = M, second = S\<rparr>
      else Inl ValueError)"

text \<open>\<open>dt.date()\<close>: the calendar date of a datetime.\<close>

definition date :: "datetime \<Rightarrow> nat \<times> nat \<times> nat" where
  "date dt = (year dt, month dt, day dt)"

subsection \<open>Formatting: str, zfill and strftime\<close>

definition digit_char :: "nat \<Rightarrow> nat" where
  "digit_char n = 48 + n mod 10"

text \<open>\<open>str(n)\<close>: the decimal digits of a number, with no padding.\<close>

function str_nat :: "nat \<Rightarrow> str" where
  "str_nat n = (if n < 10 then [digit_char n] else str_nat (n div 10) @ [digit_char n])"
  by pat_completeness auto
termination
  by (relation "measure id") auto

declare str_nat.simps [simp del]

text \<open>\<open>s.zfill(width)\<close> on a string of digits: zeros on the left up to the width.\<close>

definition zfill :: "nat \<Rightarrow> str \<Rightarrow> str" where
  "zfill width s = replicate (width - length s) 48 @ s"

text \<open>The directives the program uses, as \<open>strftime\<close> of CPython 3.11 on glibc gives them:
  \<open>%Y\<close> is the year with no padding, so a year below 1000 has fewer than four digits;
  the other fields are padded with zeros to two digits.\<close>

definition directive :: "datetime \<Rightarrow> nat \<Rightarrow> str" where
  "directive dt c =
     (if c = cp CHR ''Y'' then str_nat (year dt)
      else if c = cp CHR ''m'' then zfill 2 (str_nat (month dt))
      else if c = cp CHR ''d'' then zfill 2 (str_nat (day dt))
      else if c = cp CHR ''H'' then zfill 2 (str_nat (hour dt))
      else if c = cp CHR ''M'' then zfill 2 (str_nat (minute dt))
      else if c = cp CHR ''S'' then zfill 2 (str_nat (second dt))
      else [cp CHR ''%'', c])"

fun strftime :: "datetime \<Rightarrow> str \<Rightarrow> str" where
  "strftime dt (c # d # r) =
     (if c = cp CHR ''%'' then directive dt d @ strftime dt r else c # strftime dt (d # r))"
| "strftime dt [c] = [c]"
| "strftime dt [] = []"

subsection \<open>Regular expressions with backtracking\<close>

text \<open>
  A pattern maps the text to the list of its matches at the start of the text, in the
  order the backtracking matcher of \<open>re\<close> tries them; a match is the captured value and
  the rest of the text. \<open>re.match\<close> takes the first one.
\<close>

type_synonym 'a regex = "str \<Rightarrow> ('a \<times> str) list"

definition pure_re :: "'a \<Rightarrow> 'a regex" where
  "pure_re a s = [(a, s)]"

definition char_re :: "(nat \<Rightarrow> bool) \<Rightarrow> nat regex" where
  "char_re P s = (case s of [] \<Rightarrow> [] | c # r \<Rightarrow> if P c then [(c, r)] else [])"

definition then_re :: "'a regex \<Rightarrow> ('a \<Rightarrow> 'b regex) \<Rightarrow> 'b regex" where
  "then_re p f s = concat (map (\<lambda>(a, r). f a r) (p s))"

definition alt_re :: "'a regex \<Rightarrow> 'a regex \<Rightarrow> 'a regex" where
  "alt_re p q s = p s @ q s"

fun repeat_re :: "nat \<Rightarrow> (nat \<Rightarrow> bool) \<Rightarrow> str regex" where
  "repeat_re 0 P = pure_re []"
| "repeat_re (Suc n) P = then_re (char_re P) (\<lambda>c. then_re (repeat_re n P) (\<lambda>cs. pure_re (c # cs)))"

text \<open>A class of ASCII characters, such as \<^verbatim>\<open>[-_]\<close> or \<^verbatim>\<open>[0-2]\<close>.\<close>

definition one_of :: "string \<Rightarrow> nat \<Rightarrow> bool" where
  "one_of cs c = (c \<in> set (ascii cs))"

definition lit :: "char \<Rightarrow> nat regex" where
  "lit c = char_re (\<lambda>x. x = cp c)"

text \<open>\<open>\s+\<close> is greedy: the longest run of spaces is tried first.\<close>

fun spaces_re :: "unit regex" where
  "spaces_re [] = []"
| "spaces_re (c # r) = (if is_space c then spaces_re r @ [((), r)] else [])"

definition re_match :: "'a regex \<Rightarrow> str \<Rightarrow> ('a \<times> str) option" where
  "re_match p s = (case p s of [] \<Rightarrow> None | m # _ \<Rightarrow> Some m)"

text \<open>\<open>re.search\<close>: the first match at the leftmost position that has one.\<close>

fun re_search :: "'a regex \<Rightarrow> str \<Rightarrow> 'a option" where
  "re_search p [] = map_option fst (re_match p [])"
| "re_search p (c # cs) =
     (case re_match p (c # cs) of Some m \<Rightarrow> Some (fst m) | None \<Rightarrow> re_search p cs)"

subsection \<open>Parsing: strptime\<close>

text \<open>\<open>int(s)\<close> on a string of digits.\<close>

definition int_of_digits :: "str \<Rightarrow> nat" where
  "int_of_digits s = foldl (\<lambda>a c. 10 * a + digit_val c) 0 s"

definition d1 :: "(nat \<Rightarrow> bool) \<Rightarrow> nat regex" where
  "d1 P = then_re (char_re P) (\<lambda>a. pure_re (digit_val a))"

definition d2 :: "(nat \<Rightarrow> bool) \<Rightarrow> (nat \<Rightarrow> bool) \<Rightarrow> nat regex" where
  "d2 P Q = then_re (char_re P) (\<lambda>a. then_re (char_re Q) (\<lambda>b. pure_re (10 * digit_val a + digit_val b)))"

text \<open>The groups of \<open>_strptime.TimeRE\<close>:
  \<^verbatim>\<open>Y: \d\d\d\d\<close>,
  \<^verbatim>\<open>m: 1[0-2]|0[1-9]|[1-9]\<close>,
  \<^verbatim>\<open>d: 3[0-1]|[1-2]\d|0[1-9]|[1-9]| [1-9]\<close>,
  \<^verbatim>\<open>H: 2[0-3]|[0-1]\d|\d\<close>,
  \<^verbatim>\<open>M: [0-5]\d|\d\<close>,
  \<^verbatim>\<open>S: 6[0-1]|[0-5]\d|\d\<close>.\<close>

definition re_Y :: "nat regex" where
  "re_Y = then_re (repeat_re 4 is_digit) (\<lambda>g. pure_re (int_of_digits g))"

definition re_m :: "nat regex" where
  "re_m = alt_re (d2 (one_of ''1'') (one_of ''012''))
         (alt_re (d2 (one_of ''0'') (one_of ''123456789''))
                 (d1 (one_of ''123456789'')))"

definition re_d :: "nat regex" where
  "re_d = alt_re (d2 (one_of ''3'') (one_of ''01''))
         (alt_re (d2 (one_of ''12'') is_digit)
         (alt_re (d2 (one_of ''0'') (one_of ''123456789''))
         (alt_re (d1 (one_of ''123456789''))
                 (then_re (char_re (one_of '' '')) (\<lambda>_. d1 (one_of ''123456789''))))))"

definition re_H :: "nat regex" where
  "re_H = alt_re (d2 (one_of ''2'') (one_of ''0123''))
         (alt_re (d2 (one_of ''01'') is_digit)
                 (d1 is_digit))"

definition re_M :: "nat regex" where
  "re_M = alt_re (d2 (one_of ''012345'') is_digit) (d1 is_digit)"

definition re_S :: "nat regex" where
  "re_S = alt_re (d2 (one_of ''6'') (one_of ''01''))
         (alt_re (d2 (one_of ''012345'') is_digit)
                 (d1 is_digit))"

text \<open>\<open>datetime.strptime(s, '%Y%m%d')\<close>: the format's pattern is matched at the start
  of \<open>s\<close>; no match, text left over after the match, and a date that does not exist all
  raise ValueError.\<close>

definition regex_Ymd :: "(nat \<times> nat \<times> nat) regex" where
  "regex_Ymd = then_re re_Y (\<lambda>y. then_re re_m (\<lambda>m. then_re re_d (\<lambda>d. pure_re (y, m, d))))"

definition strptime_Ymd :: "str \<Rightarrow> error + datetime" where
  "strptime_Ymd s =
     (case re_match regex_Ymd s of
        None \<Rightarrow> Inl ValueError
      | Some ((y, m, d), rest) \<Rightarrow>
          if rest \<noteq> [] then Inl ValueError else datetime_new y m d 0 0 0)"

text \<open>\<open>datetime.strptime(s, '%Y:%m:%d %H:%M:%S')\<close>; the blank of the format stands for
  \<open>\s+\<close>.\<close>

definition regex_exif :: "(nat \<times> nat \<times> nat \<times> nat \<times> nat \<times> nat) regex" where
  "regex_exif =
     then_re re_Y (\<lambda>y. then_re (lit CHR '':'') (\<lambda>_.
     then_re re_m (\<lambda>m. then_re (lit CHR '':'') (\<lambda>_.
     then_re re_d (\<lambda>d. then_re spaces_re (\<lambda>_.
     then_re re_H (\<lambda>H. then_re (lit CHR '':'') (\<lambda>_.
     then_re re_M (\<lambda>M. then_re (lit CHR '':'') (\<lambda>_.
     then_re re_S (\<lambda>S. pure_re (y, m, d, H, M, S))))))))))))"

definition strptime_exif :: "str \<Rightarrow> error + datetime" where
  "strptime_exif s =
     (case re_match regex_exif s of
        None \<Rightarrow> Inl ValueError
      | Some ((y, m, d, H, M, S), rest) \<Rightarrow>
          if rest \<noteq> [] then Inl ValueError else datetime_new y m d H M S)"

section \<open>The date in the file name\<close>

text \<open>The pattern \<^verbatim>\<open>IMG[-_](\d{8})[-_]\<close>; its value is group 1.\<close>

definition pattern :: "str regex" where
  "pattern =
     then_re (lit CHR ''I'') (\<lambda>_. then_re (lit CHR ''M'') (\<lambda>_. then_re (lit CHR ''G'') (\<lambda>_.
     then_re (char_re (one_of ''-_'')) (\<lambda>_.
     then_re (repeat_re 8 is_digit) (\<lambda>g.
     then_re (char_re (one_of ''-_'')) (\<lambda>_. pure_re g))))))"

text \<open>\<open>_extract_date_from_filename\<close> (an Isabelle name cannot start with an underscore).
  The exception of \<open>strptime\<close> is not caught here: it leaves the function.\<close>

definition extract_date_from_filename :: "str \<Rightarrow> error + datetime option" where
  "extract_date_from_filename filename =
     (case re_search pattern filename of
        Some date_str \<Rightarrow> (case strptime_Ymd date_str of Inl e \<Rightarrow> Inl e | Inr dt \<Rightarrow> Inr (Some dt))
      | None \<Rightarrow> Inr None)"

section \<open>The metadata block\<close>

text \<open>
  \<open>piexif.load\<close> returns a dictionary from section names to sections; a section maps
  tag numbers to values. A value of an ASCII tag is a \<open>bytes\<close>; the other kinds of value
  (integers, rationals) are \<open>Number\<close>, which has no \<open>decode\<close>. The thumbnail entry, which
  the program never reads or writes, is left out.
\<close>

datatype exif_value = Bytes bytes | Number int

type_synonym ifd = "nat \<rightharpoonup> exif_value"

type_synonym exif_dict = "string \<rightharpoonup> ifd"

text \<open>\<open>piexif.ExifIFD.DateTimeOriginal\<close>, \<open>piexif.ExifIFD.DateTimeDigitized\<close> and
  \<open>piexif.ImageIFD.DateTime\<close>.\<close>

definition DateTimeOriginal :: nat where
  "DateTimeOriginal = 36867"

definition DateTimeDigitized :: nat where
  "DateTimeDigitized = 36868"

definition DateTime :: nat where
  "DateTime = 306"

text \<open>
  The library is a parameter of the model: what its reader finds in the bytes of a file,
  what \<open>dump\<close> makes of a dictionary, and what \<open>insert\<close> makes of the new metadata and
  the bytes of a file. Each of them can raise.
\<close>

record piexif =
  piexif_read :: "bytes \<Rightarrow> error + exif_dict"
  piexif_dump :: "exif_dict \<Rightarrow> error + bytes"
  piexif_insert :: "bytes \<Rightarrow> bytes \<Rightarrow> error + bytes"

text \<open>\<open>piexif.load\<close> starts from a dictionary that holds every section, each empty, and
  fills in what the reader finds; so the sections are always present in what it returns.\<close>

definition section_names :: "string list" where
  "section_names = [''0th'', ''Exif'', ''GPS'', ''Interop'', ''1st'']"

definition piexif_load :: "piexif \<Rightarrow> bytes \<Rightarrow> error + exif_dict" where
  "piexif_load lib b =
     (case piexif_read lib b of
        Inl e \<Rightarrow> Inl e
      | Inr found \<Rightarrow>
          Inr (\<lambda>k. if k \<in> set section_names
                   then Some (case found k of None \<Rightarrow> Map.empty | Some sec \<Rightarrow> sec)
                   else None))"

text \<open>\<open>value.decode('utf-8')\<close>: a value that is not a \<open>bytes\<close> has no such method.\<close>

definition decode_utf8 :: "exif_value \<Rightarrow> error + str" where
  "decode_utf8 v =
     (case v of
        Bytes b \<Rightarrow> utf8_decode (map cp b)
      | Number _ \<Rightarrow> Inl AttributeError)"

section \<open>Files and console\<close>

text \<open>An input file: \<open>image_path\<close> with the bytes it holds. \<open>name\<close> is
  \<open>image_path.name\<close>.\<close>

record image =
  parent :: str
  name :: str
  data :: bytes

definition str_path :: "image \<Rightarrow> str" where
  "str_path image_path = parent image_path @ ascii ''/'' @ name image_path"

text \<open>A printed line is its text; a line that ends with \<open>{e}\<close> is the text before it
  and the exception, whose message the model does not spell out.\<close>

datatype line = Line str | LineWithError str error

text \<open>What the run changes: the lines printed, the directories made and the files
  written under the output directory. Printing, copying and making a directory are taken
  to succeed.\<close>

record world =
  stdout :: "line list"
  dirs :: "str set"
  files :: "str \<rightharpoonup> bytes"

definition print :: "str \<Rightarrow> world \<Rightarrow> world" where
  "print s w = w\<lparr>stdout := stdout w @ [Line s]\<rparr>"

definition print_error :: "str \<Rightarrow> error \<Rightarrow> world \<Rightarrow> world" where
  "print_error s e w = w\<lparr>stdout := stdout w @ [LineWithError s e]\<rparr>"

definition copy2 :: "image \<Rightarrow> str \<Rightarrow> world \<Rightarrow> world" where
  "copy2 image_path output_path w = w\<lparr>files := (files w)(output_path \<mapsto> data image_path)\<rparr>"

definition mkdir :: "str \<Rightarrow> world \<Rightarrow> world" where
  "mkdir path w = w\<lparr>dirs := insert path (dirs w)\<rparr>"

section \<open>Reading the embedded date\<close>

text \<open>A date field: \<open>datetime.strptime(v.decode('utf-8'), '%Y:%m:%d %H:%M:%S')\<close>.\<close>

definition parse_field :: "exif_value \<Rightarrow> error + datetime" where
  "parse_field v =
     (case decode_utf8 v of Inl e \<Rightarrow> Inl e | Inr date_str \<Rightarrow> strptime_exif date_str)"

text \<open>The body of the \<open>try\<close> of \<open>_get_exif_date\<close>, once the block is loaded.\<close>

definition read_date_fields :: "exif_dict \<Rightarrow> image \<Rightarrow> world \<Rightarrow> error + (datetime option \<times> world)" where
  "read_date_fields exif_dict image_path w =
     (case exif_dict ''Exif'' of
        None \<Rightarrow> Inr (None, print (ascii ''  No EXIF section found in '' @ name image_path) w)
      | Some exif \<Rightarrow>
          (case exif DateTimeOriginal of
             Some v \<Rightarrow>
               (case parse_field v of Inl e \<Rightarrow> Inl e | Inr dt \<Rightarrow> Inr (Some dt, w))
           | None \<Rightarrow>
               (case (case exif_dict ''0th'' of None \<Rightarrow> None | Some zeroth \<Rightarrow> zeroth DateTime) of
                  Some v \<Rightarrow>
                    (case parse_field v of Inl e \<Rightarrow> Inl e | Inr dt \<Rightarrow> Inr (Some dt, w))
                | None \<Rightarrow>
                    Inr (None, print (ascii ''  No date fields found in EXIF data for ''
                                      @ name image_path) w))))"

text \<open>The whole body of the \<open>try\<close>: \<open>piexif.load\<close>, then the fields.\<close>

definition try_get_exif_date :: "piexif \<Rightarrow> image \<Rightarrow> world \<Rightarrow> error + (datetime option \<times> world)" where
  "try_get_exif_date lib image_path w =
     (case piexif_load lib (data image_path) of
        Inl e \<Rightarrow> Inl e
      | Inr exif_dict \<Rightarrow> read_date_fields exif_dict image_path w)"

text \<open>\<open>_get_exif_date\<close>: every exception of the body is caught, printed, and answered
  with None.\<close>

definition get_exif_date :: "piexif \<Rightarrow> image \<Rightarrow> world \<Rightarrow> datetime option \<times> world" where
  "get_exif_date lib image_path w =
     (case try_get_exif_date lib image_path w of
        Inr res \<Rightarrow> res
      | Inl e \<Rightarrow> (None, print_error (ascii ''Error reading EXIF data from '' @ str_path image_path
                                     @ ascii '': '') e w))"

section \<open>Writing the date\<close>

text \<open>\<open>exif_dict[section][tag] = v\<close>; KeyError when the section is missing.\<close>

definition setitem :: "exif_dict \<Rightarrow> string \<Rightarrow> nat \<Rightarrow> exif_value \<Rightarrow> error + exif_dict" where
  "setitem exif_dict sec tag v =
     (case exif_dict sec of
        None \<Rightarrow> Inl KeyError
      | Some s \<Rightarrow> Inr (exif_dict(sec \<mapsto> s(tag \<mapsto> v))))"

text \<open>The part of \<open>_update_exif_date\<close> between \<open>piexif.load\<close> and \<open>piexif.dump\<close>: the
  sections are made when missing, the date is formatted, and each of the three date
  fields is set to \<open>date_str.encode('utf-8')\<close>.\<close>

definition set_date_fields :: "exif_dict \<Rightarrow> datetime \<Rightarrow> error + exif_dict" where
  "set_date_fields exif_dict new_date =
     (let d1 = (if exif_dict ''Exif'' = None then exif_dict(''Exif'' \<mapsto> Map.empty) else exif_dict);
          d2 = (if d1 ''0th'' = None then d1(''0th'' \<mapsto> Map.empty) else d1);
          date_str = strftime new_date (ascii ''%Y:%m:%d 09:00:00'')
      in case utf8_encode date_str of
           Inl e \<Rightarrow> Inl e
         | Inr b \<Rightarrow>
             (case setitem d2 ''Exif'' DateTimeOriginal (Bytes b) of
                Inl e \<Rightarrow> Inl e
              | Inr d3 \<Rightarrow>
                  (case setitem d3 ''0th'' DateTime (Bytes b) of
                     Inl e \<Rightarrow> Inl e
                   | Inr d4 \<Rightarrow> setitem d4 ''Exif'' DateTimeDigitized (Bytes b))))"

text \<open>The body of the \<open>try\<close> of \<open>_update_exif_date\<close>. \<open>piexif.insert\<close> writes the
  bytes it makes to \<open>output_path\<close>; \<open>new_exif_bytes\<close> is what it writes.\<close>

definition new_exif_bytes :: "piexif \<Rightarrow> image \<Rightarrow> datetime \<Rightarrow> error + bytes" where
  "new_exif_bytes lib image_path new_date =
     (case piexif_load lib (data image_path) of
        Inl e \<Rightarrow> Inl e
      | Inr exif_dict \<Rightarrow>
          (case set_date_fields exif_dict new_date of
             Inl e \<Rightarrow> Inl e
           | Inr exif_dict' \<Rightarrow>
               (case piexif_dump lib exif_dict' of
                  Inl e \<Rightarrow> Inl e
                | Inr exif_bytes \<Rightarrow> piexif_insert lib exif_bytes (data image_path))))"

definition try_update_exif_date ::
  "piexif \<Rightarrow> image \<Rightarrow> datetime \<Rightarrow> str \<Rightarrow> world \<Rightarrow> error + world" where
  "try_update_exif_date lib image_path new_date output_path w =
     (case new_exif_bytes lib image_path new_date of
        Inl e \<Rightarrow> Inl e
      | Inr new_bytes \<Rightarrow> Inr (w\<lparr>files := (files w)(output_path \<mapsto> new_bytes)\<rparr>))"

text \<open>\<open>_update_exif_date\<close>: True when the body ran through, False when it raised.\<close>

definition update_exif_date ::
  "piexif \<Rightarrow> image \<Rightarrow> datetime \<Rightarrow> str \<Rightarrow> world \<Rightarrow> bool \<times> world" where
  "update_exif_date lib image_path new_date output_path w =
     (case try_update_exif_date lib image_path new_date output_path w of
        Inr w' \<Rightarrow> (True, w')
      | Inl e \<Rightarrow> (False, print_error (ascii ''Error updating EXIF data for '' @ str_path image_path
                                      @ ascii '': '') e w))"

section \<open>The run\<close>

record UpdateReport =
  updated :: nat
  added :: nat
  failed :: nat
  preserved :: nat

definition new_report :: UpdateReport where
  "new_report = \<lparr>updated = 0, added = 0, failed = 0, preserved = 0\<rparr>"

definition as_text :: "UpdateReport \<Rightarrow> str" where
  "as_text r =
     ascii ''Updated: '' @ str_nat (updated r) @ [10]
     @ ascii ''Added: '' @ str_nat (added r) @ [10]
     @ ascii ''Failed: '' @ str_nat (failed r) @ [10]
     @ ascii ''Preserved: '' @ str_nat (preserved r) @ [10]"

text \<open>The body of the loop of \<open>main\<close>, for one file. An exception that leaves
  \<open>_extract_date_from_filename\<close> leaves \<open>main\<close> too; it is returned with the world at
  that moment.\<close>

definition process_file ::
  "piexif \<Rightarrow> str \<Rightarrow> image \<Rightarrow> UpdateReport \<times> world \<Rightarrow> (error \<times> world) + (UpdateReport \<times> world)" where
  "process_file lib output_subdir image_path rw =
     (let report = fst rw;
          w1 = print (10 # ascii ''Processing: '' @ name image_path) (snd rw);
          output_path = output_subdir @ ascii ''/'' @ name image_path
      in case extract_date_from_filename (name image_path) of
           Inl e \<Rightarrow> Inl (e, w1)
         | Inr None \<Rightarrow>
             Inr (report,
                  copy2 image_path output_path
                    (print (ascii ''  Could not extract date from filename: '' @ name image_path) w1))
         | Inr (Some filename_date) \<Rightarrow>
             (let w2 = print (ascii ''  Date from filename: ''
                              @ strftime filename_date (ascii ''%Y-%m-%d'')) w1;
                  got = get_exif_date lib image_path w2
              in case fst got of
                   Some exif_date \<Rightarrow>
                     (let w3 = print (ascii ''  Date from EXIF: ''
                                      @ strftime exif_date (ascii ''%Y-%m-%d %H:%M:%S'')) (snd got)
                      in if date filename_date = date exif_date
                         then Inr (report\<lparr>preserved := preserved report + 1\<rparr>,
                                   copy2 image_path output_path
                                     (print (ascii ''  Dates match - copying file without changes'') w3))
                         else (let upd = update_exif_date lib image_path filename_date output_path
                                           (print (ascii ''  Dates don't match - updating EXIF data'') w3)
                               in if fst upd
                                  then Inr (report\<lparr>updated := updated report + 1\<rparr>,
                                            print (ascii ''  Successfully updated EXIF date'') (snd upd))
                                  else Inr (report\<lparr>failed := failed report + 1\<rparr>,
                                            copy2 image_path output_path
                                              (print (ascii ''  Failed to update EXIF date - copying original'')
                                                 (snd upd)))))
                 | None \<Rightarrow>
                     (let upd = update_exif_date lib image_path filename_date output_path
                                  (print (ascii ''  No EXIF date found - adding date from filename'')
                                     (snd got))
                      in if fst upd
                         then Inr (report\<lparr>added := added report + 1\<rparr>,
                                   print (ascii ''  Successfully added EXIF date'') (snd upd))
                         else Inr (report\<lparr>failed := failed report + 1\<rparr>,
                                   copy2 image_path output_path
                                     (print (ascii ''  Failed to add EXIF date - copying original'')
                                        (snd upd))))))"

fun process_files ::
  "piexif \<Rightarrow> str \<Rightarrow> image list \<Rightarrow> UpdateReport \<times> world \<Rightarrow> (error \<times> world) + (UpdateReport \<times> world)" where
  "process_files lib output_subdir [] rw = Inr rw"
| "process_files lib output_subdir (image_path # rest) rw =
     (case process_file lib output_subdir image_path rw of
        Inl ew \<Rightarrow> Inl ew
      | Inr rw' \<Rightarrow> process_files lib output_subdir rest rw')"

text \<open>The environment of a run: what each \<open>glob\<close> of the input directory lists, the
  output directory and the clock.\<close>

record env =
  glob :: "string \<Rightarrow> image list"
  OUTPUT_DIR :: str
  now :: datetime

definition read_files :: "env \<Rightarrow> world \<Rightarrow> image list \<times> world" where
  "read_files e w =
     (let fs = glob e ''*.jpg'' @ glob e ''*.JPG'' @ glob e ''*.jpeg'' @ glob e ''*.JPEG''
      in (fs, print (ascii ''Found '' @ str_nat (length fs) @ ascii '' image(s) to process'') w))"

definition main :: "env \<Rightarrow> piexif \<Rightarrow> world \<Rightarrow> (error \<times> world) + world" where
  "main e lib w =
     (let jpg_files = fst (read_files e w); w1 = snd (read_files e w)
      in if jpg_files = [] then Inr (print (ascii ''No .jpg files found in input directory'') w1)
         else (let output_subdir = OUTPUT_DIR e @ ascii ''/'' @ strftime (now e) (ascii ''%Y%m%d_%H%M%S'');
                   w2 = mkdir output_subdir w1
               in case process_files lib output_subdir jpg_files (new_report, w2) of
                    Inl ew \<Rightarrow> Inl ew
                  | Inr rw \<Rightarrow>
                      Inr (print (as_text (fst rw))
                            (print (ascii ''Update Report:'')
                              (print (10 # ascii ''Processing complete. Check the '' @ [39]
                                      @ output_subdir @ [39] @ ascii '' directory for results.'')
                                 (snd rw))))))"

section \<open>Notions used to state the properties\<close>

text \<open>A field of a block, by section and tag.\<close>

definition lookup_field :: "exif_dict \<Rightarrow> string \<Rightarrow> nat \<Rightarrow> exif_value option" where
  "lookup_field exif_dict sec tag = (case exif_dict sec of None \<Rightarrow> None | Some s \<Rightarrow> s tag)"

text \<open>The three date fields.\<close>

definition date_field :: "string \<Rightarrow> nat \<Rightarrow> bool" where
  "date_field sec tag =
     (if sec = ''Exif'' then tag = DateTimeOriginal \<or> tag = DateTimeDigitized
      else if sec = ''0th'' then tag = DateTime else False)"

definition total :: "UpdateReport \<Rightarrow> nat" where
  "total r = updated r + added r + failed r + preserved r"

definition has_filename_date :: "image \<Rightarrow> bool" where
  "has_filename_date image_path =
     (case extract_date_from_filename (name image_path) of
        Inr (Some _) \<Rightarrow> True
      | _ \<Rightarrow> False)"

definition empty_world :: world where
  "empty_world = \<lparr>stdout = [], dirs = {}, files = Map.empty\<rparr>"

text \<open>What \<open>_get_exif_date\<close> returns for a file; the console does not change it.\<close>

definition embedded_date :: "piexif \<Rightarrow> image \<Rightarrow> datetime option" where
  "embedded_date lib image_path = fst (get_exif_date lib image_path empty_world)"

text \<open>The decision table of the specification: the action for a file name date and an
  embedded date, compared by calendar date only.\<close>

datatype action = Preserve | Add | Overwrite | Unparseable

fun reconcile :: "datetime option \<Rightarrow> datetime option \<Rightarrow> action" where
  "reconcile None _ = Unparseable"
| "reconcile (Some fd) None = Add"
| "reconcile (Some fd) (Some ed) = (if date fd = date ed then Preserve else Overwrite)"

text \<open>The text \<open>YYYY:MM:DD HH:MM:SS\<close> of a date and time, every field padded with
  zeros.\<close>

definition exif_text :: "datetime \<Rightarrow> str" where
  "exif_text dt =
     zfill 4 (str_nat (year dt)) @ ascii '':'' @ zfill 2 (str_nat (month dt)) @ ascii '':''
     @ zfill 2 (str_nat (day dt)) @ ascii '' '' @ zfill 2 (str_nat (hour dt)) @ ascii '':''
     @ zfill 2 (str_nat (minute dt)) @ ascii '':'' @ zfill 2 (str_nat (second dt))"

text \<open>Sample inputs: a file named after 7 November 2020; a library that finds no
  metadata in it; one that finds the date-time original \<open>0000:00:00 00:00:00\<close>, which is
  not a date; one that finds the date-time original \<open>2020:11:07 14:22:01\<close>; one that
  finds the fields of a camera, dated 1 January 2019; one that cannot read the file; an
  input directory with no image; and a file named after 1 January 999 with the block
  that is written for it.\<close>

definition sample_image :: image where
  "sample_image = \<lparr>parent = ascii ''input'', name = ascii ''IMG-20201107-WA0029.jpg'',
                   data = ''JPEG''\<rparr>"

definition sample_date :: datetime where
  "sample_date = \<lparr>year = 2020, month = 11, day = 7, hour = 0, minute = 0, second = 0\<rparr>"

definition plain_lib :: piexif where
  "plain_lib = \<lparr>piexif_read = (\<lambda>b. Inr Map.empty),
                piexif_dump = (\<lambda>d. Inr ''EXIF''),
                piexif_insert = (\<lambda>e b. Inr (e @ b))\<rparr>"

definition garbled_lib :: piexif where
  "garbled_lib = \<lparr>piexif_read = (\<lambda>b. Inr [''Exif'' \<mapsto> [DateTimeOriginal \<mapsto> Bytes ''0000:00:00 00:00:00'']]),
                  piexif_dump = (\<lambda>d. Inr ''EXIF''),
                  piexif_insert = (\<lambda>e b. Inr (e @ b))\<rparr>"

definition dated_lib :: piexif where
  "dated_lib = \<lparr>piexif_read = (\<lambda>b. Inr [''Exif'' \<mapsto> [DateTimeOriginal \<mapsto> Bytes ''2020:11:07 14:22:01'']]),
                piexif_dump = (\<lambda>d. Inr ''EXIF''),
                piexif_insert = (\<lambda>e b. Inr (e @ b))\<rparr>"

text \<open>Tag 271 of the section \<open>0th\<close> is the maker of the camera, tag 33437 of \<open>Exif\<close> the
  aperture, tag 1 of \<open>GPS\<close> the latitude reference.\<close>

definition camera_block :: exif_dict where
  "camera_block =
     [''0th'' \<mapsto> [271 \<mapsto> Bytes ''Canon'', DateTime \<mapsto> Bytes ''2019:01:01 00:00:00''],
      ''Exif'' \<mapsto> [DateTimeOriginal \<mapsto> Bytes ''2019:01:01 00:00:00'', 33437 \<mapsto> Number 4],
      ''GPS'' \<mapsto> [1 \<mapsto> Bytes ''N'']]"

definition camera_lib :: piexif where
  "camera_lib = \<lparr>piexif_read = (\<lambda>b. Inr camera_block),
                 piexif_dump = (\<lambda>d. Inr ''EXIF''),
                 piexif_insert = (\<lambda>e b. Inr (e @ b))\<rparr>"

definition broken_lib :: piexif where
  "broken_lib = \<lparr>piexif_read = (\<lambda>b. Inl (LibraryError ''not a JPEG'')),
                 piexif_dump = (\<lambda>d. Inr ''EXIF''),
                 piexif_insert = (\<lambda>e b. Inr (e @ b))\<rparr>"

definition no_images :: env where
  "no_images = \<lparr>glob = (\<lambda>p. []), OUTPUT_DIR = ascii ''output'', now = sample_date\<rparr>"

definition early_image :: image where
  "early_image = \<lparr>parent = ascii ''input'', name = ascii ''IMG-09990101-WA0001.jpg'',
                  data = ''JPEG''\<rparr>"

definition early_date :: datetime where
  "early_date = \<lparr>year = 999, month = 1, day = 1, hour = 0, minute = 0, second = 0\<rparr>"

definition early_block :: exif_dict where
  "early_block =
     [''0th'' \<mapsto> [DateTime \<mapsto> Bytes ''999:01:01 09:00:00''],
      ''Exif'' \<mapsto> [DateTimeOriginal \<mapsto> Bytes ''999:01:01 09:00:00'',
                  DateTimeDigitized \<mapsto> Bytes ''999:01:01 09:00:00'']]"

definition early_lib :: piexif where
  "early_lib = \<lparr>piexif_read = (\<lambda>b. Inr early_block),
                piexif_dump = (\<lambda>d. Inr ''EXIF''),
                piexif_insert = (\<lambda>e b. Inr (e @ b))\<rparr>"

section \<open>Evaluating the model\<close>

lemmas date_defs = datetime_new_def days_in_month_def is_leap_def

section \<open>Digits\<close>

lemma below_ten:
  "k < 10 \<Longrightarrow> k = 0 \<or> k = 1 \<or> k = 2 \<or> k = 3 \<or> k = 4 \<or> k = 5 \<or> k = 6 \<or> k = 7 \<or> k = 8
     \<or> k = (9::nat)"
  by arith

lemma digit_table:
  assumes "k < 10"
  shows "decimal (48 + k) = Some k \<and> \<not> is_space (48 + k)"
  using below_ten [OF assms]
  by (elim disjE) (simp_all add: decimal_def decimal_zeros_def is_space_def)

lemma decimal_digit_char: "decimal (digit_char n) = Some (n mod 10)"
  unfolding digit_char_def using digit_table [of "n mod 10"] by simp

lemma is_digit_digit_char: "is_digit (digit_char n)"
  by (simp add: is_digit_def decimal_digit_char)

lemma digit_val_digit_char: "digit_val (digit_char n) = n mod 10"
  by (simp add: digit_val_def decimal_digit_char)

lemma not_space_digit_char: "\<not> is_space (digit_char n)"
  unfolding digit_char_def using digit_table [of "n mod 10"] by simp

lemma digit_char_ascii: "digit_char n < 128"
proof -
  have "n mod 10 < 10" by simp
  then show ?thesis unfolding digit_char_def by linarith
qed

lemma str_nat_below_10: "n < 10 \<Longrightarrow> str_nat n = [digit_char n]"
  by (simp add: str_nat.simps)

lemma str_nat_below_100:
  "10 \<le> n \<Longrightarrow> n < 100 \<Longrightarrow> str_nat n = [digit_char (n div 10), digit_char n]"
  by (subst str_nat.simps) (simp add: str_nat_below_10)

lemma str_nat_below_1000:
  "100 \<le> n \<Longrightarrow> n < 1000 \<Longrightarrow>
   str_nat n = [digit_char (n div 10 div 10), digit_char (n div 10), digit_char n]"
  by (subst str_nat.simps) (simp add: str_nat_below_100)

lemma str_nat_below_10000:
  "1000 \<le> n \<Longrightarrow> n < 10000 \<Longrightarrow>
   str_nat n = [digit_char (n div 10 div 10 div 10), digit_char (n div 10 div 10),
                digit_char (n div 10), digit_char n]"
  by (subst str_nat.simps) (simp add: str_nat_below_1000)

lemma digit_char_0: "digit_char 0 = 48"
  by (simp add: digit_char_def)

lemma zfill2: "n < 100 \<Longrightarrow> zfill 2 (str_nat n) = [digit_char (n div 10), digit_char n]"
  by (cases "n < 10") (simp_all add: zfill_def str_nat_below_10 str_nat_below_100 digit_char_0)

lemma zfill4:
  assumes "n \<le> 9999"
  shows "zfill 4 (str_nat n) = [digit_char (n div 10 div 10 div 10), digit_char (n div 10 div 10),
                             digit_char (n div 10), digit_char n]"
proof -
  have r3: "replicate 3 (48::nat) = [48, 48, 48]" by (simp add: numeral_3_eq_3)
  have r2: "replicate 2 (48::nat) = [48, 48]" by (simp add: numeral_2_eq_2)
  consider "n < 10" | "10 \<le> n" "n < 100" | "100 \<le> n" "n < 1000" | "1000 \<le> n" "n < 10000"
    using assms by linarith
  then show ?thesis
  proof cases
    case 1
    then show ?thesis
      by (simp add: zfill_def str_nat_below_10 digit_char_0 r3)
  next
    case 2
    then show ?thesis
      by (simp add: zfill_def str_nat_below_100 digit_char_0 r2)
  next
    case 3
    then show ?thesis
      by (simp add: zfill_def str_nat_below_1000 digit_char_0)
  next
    case 4
    then show ?thesis
      by (simp add: zfill_def str_nat_below_10000)
  qed
qed

lemma str_nat_ascii: "list_all (\<lambda>c. c < 128) (str_nat n)"
proof (induction n rule: str_nat.induct)
  case (1 n)
  show ?case
    by (subst str_nat.simps) (use 1 in \<open>simp add: digit_char_ascii\<close>)
qed

lemma zfill_ascii: "list_all (\<lambda>c. c < 128) s \<Longrightarrow> list_all (\<lambda>c. c < 128) (zfill w s)"
  by (auto simp: zfill_def list_all_iff)

section \<open>UTF-8 on ASCII text\<close>

lemma utf8_encode_ascii:
  "list_all (\<lambda>c. c < 128) s \<Longrightarrow> utf8_encode s = Inr (map char_of s)"
  by (induction s) (simp_all add: encode_point_def)

lemma cp_char_of: "c < 128 \<Longrightarrow> cp (char_of c) = c"
  by (simp add: cp_def)

lemma utf8_decode_ascii:
  "list_all (\<lambda>c. c < 128) s \<Longrightarrow> utf8_decode (map cp (map char_of s)) = Inr s"
  by (induction s) (simp_all add: cp_char_of cons_point_def)

section \<open>The patterns of strptime on padded digits\<close>

lemma horner4:
  "y = 10 * a + ym \<Longrightarrow> a = 10 * b + am \<Longrightarrow> b = 10 * c + bm
   \<Longrightarrow> 10 * (10 * (10 * c + bm) + am) + ym = (y::nat)"
  by simp

lemma four_digits:
  assumes "y \<le> 9999"
  shows "10 * (10 * (10 * (y div 10 div 10 div 10 mod 10) + y div 10 div 10 mod 10) + y div 10 mod 10)
         + y mod 10 = (y::nat)"
proof -
  define a where "a = y div 10"
  define b where "b = a div 10"
  define c where "c = b div 10"
  have y: "y = 10 * a + y mod 10" unfolding a_def by simp
  have a: "a = 10 * b + a mod 10" unfolding b_def by simp
  have b: "b = 10 * c + b mod 10" unfolding c_def by simp
  have "c < 10" using assms unfolding c_def b_def a_def by simp
  then have c: "c mod 10 = c" by simp
  have "10 * (10 * (10 * (c mod 10) + b mod 10) + a mod 10) + y mod 10 = y"
    unfolding c by (rule horner4 [OF y a b])
  then show ?thesis unfolding a_def b_def c_def .
qed

lemma two_digits: "n < 100 \<Longrightarrow> 10 * (n div 10 mod 10) + n mod 10 = (n::nat)"
  by simp

lemma re_match_then:
  "re_match p s = Some (a, r) \<Longrightarrow> re_match (f a) r = Some x \<Longrightarrow> re_match (then_re p f) s = Some x"
  by (auto simp: re_match_def then_re_def split: list.splits)

lemma re_match_pure: "re_match (pure_re a) s = Some (a, s)"
  by (simp add: re_match_def pure_re_def)

lemma re_match_lit: "re_match (lit c) (cp c # r) = Some (cp c, r)"
  by (simp add: re_match_def lit_def char_re_def)

lemma repeat_re_4:
  "repeat_re 4 P (a # b # c # d # r) = (if P a \<and> P b \<and> P c \<and> P d then [([a, b, c, d], r)] else [])"
proof -
  have e: "repeat_re 4 P = repeat_re (Suc (Suc (Suc (Suc 0)))) P"
    by (simp add: eval_nat_numeral)
  show ?thesis unfolding e by (simp add: then_re_def char_re_def pure_re_def)
qed

lemma re_match_re_Y:
  "y \<le> 9999 \<Longrightarrow>
   re_match re_Y (digit_char (y div 10 div 10 div 10) # digit_char (y div 10 div 10)
                  # digit_char (y div 10) # digit_char y # r) = Some (y, r)"
  using four_digits [of y]
  by (simp add: re_Y_def re_match_def repeat_re_4 then_re_def pure_re_def
        is_digit_digit_char int_of_digits_def digit_val_digit_char)

lemma d2_Cons:
  "d2 P Q (a # b # r) = (if P a \<and> Q b then [(10 * digit_val a + digit_val b, r)] else [])"
  by (simp add: d2_def then_re_def char_re_def pure_re_def)

lemma d2_short: "d2 P Q [a] = []" "d2 P Q [] = []"
  by (simp_all add: d2_def then_re_def char_re_def pure_re_def)

lemma d1_Cons: "d1 P (a # r) = (if P a then [(digit_val a, r)] else [])"
  by (simp add: d1_def then_re_def char_re_def pure_re_def)

lemmas digit_eval = digit_char_def one_of_def ascii_def cp_def is_digit_def digit_val_def
  decimal_def decimal_zeros_def

lemma month_cases:
  "1 \<le> m \<Longrightarrow> m \<le> 12 \<Longrightarrow> m = 1 \<or> m = 2 \<or> m = 3 \<or> m = 4 \<or> m = 5 \<or> m = 6 \<or> m = 7
     \<or> m = 8 \<or> m = 9 \<or> m = 10 \<or> m = 11 \<or> m = (12::nat)"
  by arith

lemma re_match_re_m:
  "1 \<le> m \<Longrightarrow> m \<le> 12 \<Longrightarrow>
   re_match re_m (digit_char (m div 10) # digit_char m # r) = Some (m, r)"
  by (drule (1) month_cases, elim disjE)
     (simp_all add: re_m_def re_match_def alt_re_def d2_Cons d1_Cons digit_eval)

lemma day_cases:
  "1 \<le> d \<Longrightarrow> d \<le> 31 \<Longrightarrow> d = 1 \<or> d = 2 \<or> d = 3 \<or> d = 4 \<or> d = 5 \<or> d = 6 \<or> d = 7
     \<or> d = 8 \<or> d = 9 \<or> d = 10 \<or> d = 11 \<or> d = 12 \<or> d = 13 \<or> d = 14 \<or> d = 15 \<or> d = 16
     \<or> d = 17 \<or> d = 18 \<or> d = 19 \<or> d = 20 \<or> d = 21 \<or> d = 22 \<or> d = 23 \<or> d = 24 \<or> d = 25
     \<or> d = 26 \<or> d = 27 \<or> d = 28 \<or> d = 29 \<or> d = 30 \<or> d = (31::nat)"
  by arith

lemma re_match_re_d:
  "1 \<le> d \<Longrightarrow> d \<le> 31 \<Longrightarrow>
   re_match re_d (digit_char (d div 10) # digit_char d # r) = Some (d, r)"
  by (drule (1) day_cases, elim disjE)
     (simp_all add: re_d_def re_match_def alt_re_def d2_Cons d1_Cons then_re_def char_re_def
        digit_eval)

lemma below_six:
  "k < 6 \<Longrightarrow> one_of ''012345'' (digit_char k) \<and> \<not> one_of ''6'' (digit_char k)"
proof -
  assume "k < 6"
  then have "k = 0 \<or> k = 1 \<or> k = 2 \<or> k = 3 \<or> k = 4 \<or> k = 5" by arith
  then show ?thesis by (elim disjE) (simp_all add: one_of_def ascii_def cp_def digit_char_def)
qed

lemma re_match_re_M:
  "n < 60 \<Longrightarrow> re_match re_M (digit_char (n div 10) # digit_char n # r) = Some (n, r)"
  using below_six [of "n div 10"] two_digits [of n]
  by (simp add: re_M_def re_match_def alt_re_def d2_Cons is_digit_digit_char
      digit_val_digit_char)

lemma re_match_re_S:
  "n < 60 \<Longrightarrow> re_match re_S (digit_char (n div 10) # digit_char n # r) = Some (n, r)"
  using below_six [of "n div 10"] two_digits [of n]
  by (simp add: re_S_def re_match_def alt_re_def d2_Cons is_digit_digit_char
      digit_val_digit_char)

lemma hour_cases:
  "h < 24 \<Longrightarrow> h = 0 \<or> h = 1 \<or> h = 2 \<or> h = 3 \<or> h = 4 \<or> h = 5 \<or> h = 6 \<or> h = 7
     \<or> h = 8 \<or> h = 9 \<or> h = 10 \<or> h = 11 \<or> h = 12 \<or> h = 13 \<or> h = 14 \<or> h = 15 \<or> h = 16
     \<or> h = 17 \<or> h = 18 \<or> h = 19 \<or> h = 20 \<or> h = 21 \<or> h = 22 \<or> h = (23::nat)"
  by arith

lemma re_match_re_H:
  "h < 24 \<Longrightarrow> re_match re_H (digit_char (h div 10) # digit_char h # r) = Some (h, r)"
  by (drule hour_cases, elim disjE)
     (simp_all add: re_H_def re_match_def alt_re_def d2_Cons d1_Cons digit_eval)

lemma re_match_spaces_re:
  "re_match spaces_re (32 # digit_char h # r) = Some ((), digit_char h # r)"
  by (simp add: re_match_def not_space_digit_char) (simp add: is_space_def)

text \<open>The padded text of a date and time, digit by digit.\<close>

lemma exif_text_digits:
  assumes "year dt \<le> 9999" "month dt < 100" "day dt < 100" "hour dt < 100" "minute dt < 100"
    "second dt < 100"
  shows "exif_text dt =
     digit_char (year dt div 10 div 10 div 10) # digit_char (year dt div 10 div 10)
     # digit_char (year dt div 10) # digit_char (year dt) # cp CHR '':''
     # digit_char (month dt div 10) # digit_char (month dt) # cp CHR '':''
     # digit_char (day dt div 10) # digit_char (day dt) # 32
     # digit_char (hour dt div 10) # digit_char (hour dt) # cp CHR '':''
     # digit_char (minute dt div 10) # digit_char (minute dt) # cp CHR '':''
     # digit_char (second dt div 10) # digit_char (second dt) # []"
  by (simp add: exif_text_def zfill4 [OF assms(1)] zfill2 [OF assms(2)] zfill2 [OF assms(3)]
      zfill2 [OF assms(4)] zfill2 [OF assms(5)] zfill2 [OF assms(6)] ascii_def cp_def)

lemma regex_exif_digits:
  assumes "y \<le> 9999" "1 \<le> m" "m \<le> 12" "1 \<le> d" "d \<le> 31" "H < 24" "M < 60" "S < 60"
  shows "re_match regex_exif
     (digit_char (y div 10 div 10 div 10) # digit_char (y div 10 div 10)
     # digit_char (y div 10) # digit_char y # cp CHR '':''
     # digit_char (m div 10) # digit_char m # cp CHR '':''
     # digit_char (d div 10) # digit_char d # 32
     # digit_char (H div 10) # digit_char H # cp CHR '':''
     # digit_char (M div 10) # digit_char M # cp CHR '':''
     # digit_char (S div 10) # digit_char S # [])
         = Some ((y, m, d, H, M, S), [])"
  unfolding regex_exif_def
  apply (rule re_match_then [OF re_match_re_Y [OF assms(1)]])
  apply (rule re_match_then [OF re_match_lit])
  apply (rule re_match_then [OF re_match_re_m [OF assms(2,3)]])
  apply (rule re_match_then [OF re_match_lit])
  apply (rule re_match_then [OF re_match_re_d [OF assms(4,5)]])
  apply (rule re_match_then [OF re_match_spaces_re])
  apply (rule re_match_then [OF re_match_re_H [OF assms(6)]])
  apply (rule re_match_then [OF re_match_lit])
  apply (rule re_match_then [OF re_match_re_M [OF assms(7)]])
  apply (rule re_match_then [OF re_match_lit])
  apply (rule re_match_then [OF re_match_re_S [OF assms(8)]])
  apply (rule re_match_pure)
  done

lemma days_in_month_le: "days_in_month y m \<le> 31"
  by (simp add: days_in_month_def)

lemma datetime_new_fields:
  "datetime_new y m d H M S = Inr dt \<Longrightarrow>
     year dt = y \<and> month dt = m \<and> day dt = d \<and> hour dt = H \<and> minute dt = M \<and> second dt = S
     \<and> 1 \<le> y \<and> y \<le> 9999 \<and> 1 \<le> m \<and> m \<le> 12 \<and> 1 \<le> d \<and> d \<le> 31 \<and> H < 24 \<and> M < 60 \<and> S < 60"
  using days_in_month_le [of y m] by (auto simp: datetime_new_def split: if_splits)

lemma strptime_exif_text:
  assumes "datetime_new y m d H M S = Inr dt"
  shows "strptime_exif (exif_text dt) = Inr dt"
proof -
  from datetime_new_fields [OF assms]
  have f: "year dt = y" "month dt = m" "day dt = d" "hour dt = H" "minute dt = M" "second dt = S"
    and b: "y \<le> 9999" "1 \<le> m" "m \<le> 12" "1 \<le> d" "d \<le> 31" "H < 24" "M < 60" "S < 60"
    by simp_all
  have t: "exif_text dt =
     digit_char (y div 10 div 10 div 10) # digit_char (y div 10 div 10)
     # digit_char (y div 10) # digit_char y # cp CHR '':''
     # digit_char (m div 10) # digit_char m # cp CHR '':''
     # digit_char (d div 10) # digit_char d # 32
     # digit_char (H div 10) # digit_char H # cp CHR '':''
     # digit_char (M div 10) # digit_char M # cp CHR '':''
     # digit_char (S div 10) # digit_char S # []"
    using exif_text_digits [of dt] b unfolding f by simp
  show ?thesis
    unfolding strptime_exif_def t regex_exif_digits [OF b]
    by (simp add: assms)
qed

lemma exif_text_ascii: "list_all (\<lambda>c. c < 128) (exif_text dt)"
  by (simp add: exif_text_def str_nat_ascii zfill_ascii ascii_def cp_def)

lemma parse_field_exif_text:
  assumes "datetime_new y m d H M S = Inr dt"
  shows "utf8_encode (exif_text dt) = Inr (map char_of (exif_text dt))
         \<and> parse_field (Bytes (map char_of (exif_text dt))) = Inr dt"
  by (simp add: utf8_encode_ascii [OF exif_text_ascii] parse_field_def decode_utf8_def
      utf8_decode_ascii [OF exif_text_ascii] strptime_exif_text [OF assms] del: map_map)

section \<open>The timestamp that is written\<close>

lemma strftime_nine:
  "strftime dt (ascii ''%Y:%m:%d 09:00:00'')
   = str_nat (year dt) @ ascii '':'' @ zfill 2 (str_nat (month dt)) @ ascii '':''
     @ zfill 2 (str_nat (day dt)) @ ascii '' 09:00:00''"
  by (simp add: ascii_def cp_def directive_def)

declare strftime.simps [simp del]

lemma strftime_nine_ascii: "list_all (\<lambda>c. c < 128) (strftime dt (ascii ''%Y:%m:%d 09:00:00''))"
  unfolding strftime_nine by (simp add: str_nat_ascii zfill_ascii ascii_def cp_def)

lemma encode_strftime_nine:
  "utf8_encode (strftime dt (ascii ''%Y:%m:%d 09:00:00''))
   = Inr (map char_of (strftime dt (ascii ''%Y:%m:%d 09:00:00'')))"
  by (rule utf8_encode_ascii [OF strftime_nine_ascii])

lemma strftime_nine_exif_text:
  assumes "1000 \<le> year dt" "year dt \<le> 9999"
  shows "strftime dt (ascii ''%Y:%m:%d 09:00:00'')
         = exif_text (dt\<lparr>hour := 9, minute := 0, second := 0\<rparr>)"
proof -
  have y: "zfill 4 (str_nat (year dt)) = str_nat (year dt)"
    using assms by (simp add: zfill_def str_nat_below_10000)
  have n: "zfill 2 (str_nat 9) = ascii ''09''" "zfill 2 (str_nat 0) = ascii ''00''"
    by (simp_all add: zfill_def str_nat_below_10 digit_char_def ascii_def cp_def numeral_2_eq_2)
  show ?thesis
    unfolding strftime_nine by (simp add: exif_text_def y n ascii_def)
qed

section \<open>The block after the dates are set\<close>

lemma set_date_fields_eq:
  "set_date_fields d dt =
     Inr (d(''0th'' \<mapsto> (case d ''0th'' of None \<Rightarrow> Map.empty | Some z \<Rightarrow> z)
                      (DateTime \<mapsto> Bytes (map char_of (strftime dt (ascii ''%Y:%m:%d 09:00:00'')))),
            ''Exif'' \<mapsto> (case d ''Exif'' of None \<Rightarrow> Map.empty | Some x \<Rightarrow> x)
                      (DateTimeOriginal \<mapsto> Bytes (map char_of (strftime dt (ascii ''%Y:%m:%d 09:00:00''))),
                       DateTimeDigitized \<mapsto> Bytes (map char_of (strftime dt (ascii ''%Y:%m:%d 09:00:00''))))))"
  by (cases "d ''Exif''"; cases "d ''0th''")
     (simp_all add: set_date_fields_def setitem_def Let_def encode_strftime_nine)

lemma tags_distinct:
  "DateTimeOriginal \<noteq> DateTimeDigitized" "DateTimeOriginal \<noteq> DateTime" "DateTimeDigitized \<noteq> DateTime"
  "DateTimeDigitized \<noteq> DateTimeOriginal" "DateTime \<noteq> DateTimeOriginal" "DateTime \<noteq> DateTimeDigitized"
  by (simp_all add: DateTimeOriginal_def DateTimeDigitized_def DateTime_def)

lemma lookup_set_date_fields:
  assumes "set_date_fields d dt = Inr d'"
  shows "lookup_field d' sec tag =
           (if date_field sec tag
            then Some (Bytes (map char_of (strftime dt (ascii ''%Y:%m:%d 09:00:00''))))
            else lookup_field d sec tag)"
proof -
  have d': "d' = d(''0th'' \<mapsto> (case d ''0th'' of None \<Rightarrow> Map.empty | Some z \<Rightarrow> z)
                      (DateTime \<mapsto> Bytes (map char_of (strftime dt (ascii ''%Y:%m:%d 09:00:00'')))),
            ''Exif'' \<mapsto> (case d ''Exif'' of None \<Rightarrow> Map.empty | Some x \<Rightarrow> x)
                      (DateTimeOriginal \<mapsto> Bytes (map char_of (strftime dt (ascii ''%Y:%m:%d 09:00:00''))),
                       DateTimeDigitized \<mapsto> Bytes (map char_of (strftime dt (ascii ''%Y:%m:%d 09:00:00'')))))"
    using assms unfolding set_date_fields_eq by simp
  consider (exif) "sec = ''Exif''" | (zeroth) "sec = ''0th''" | (other) "sec \<noteq> ''Exif''" "sec \<noteq> ''0th''"
    by blast
  then show ?thesis
  proof cases
    case exif
    show ?thesis
      unfolding d' exif lookup_field_def date_field_def
      by (cases "d ''Exif''") (simp_all add: tags_distinct)
  next
    case zeroth
    show ?thesis
      unfolding d' zeroth lookup_field_def date_field_def
      by (cases "d ''0th''") (simp_all add: tags_distinct)
  next
    case other
    then show ?thesis
      unfolding d' lookup_field_def date_field_def by simp
  qed
qed

lemma set_date_fields_Exif:
  assumes "set_date_fields d dt = Inr d'"
  shows "\<exists>x. d' ''Exif'' = Some x
             \<and> x DateTimeOriginal = Some (Bytes (map char_of (strftime dt (ascii ''%Y:%m:%d 09:00:00''))))"
  using assms unfolding set_date_fields_eq by (auto simp: tags_distinct)

section \<open>The date of a file name is a date\<close>

lemma strptime_Ymd_Inr:
  "strptime_Ymd s = Inr dt \<Longrightarrow>
     1 \<le> year dt \<and> year dt \<le> 9999 \<and> 1 \<le> month dt \<and> month dt \<le> 12 \<and> 1 \<le> day dt \<and> day dt \<le> 31
     \<and> datetime_new (year dt) (month dt) (day dt) 0 0 0 = Inr dt"
proof -
  assume a: "strptime_Ymd s = Inr dt"
  then obtain y m d where n: "datetime_new y m d 0 0 0 = Inr dt"
    by (auto simp: strptime_Ymd_def split: option.splits if_splits)
  from datetime_new_fields [OF n] n show ?thesis by simp
qed

lemma extract_Some_valid:
  "extract_date_from_filename f = Inr (Some dt) \<Longrightarrow>
     1 \<le> year dt \<and> year dt \<le> 9999 \<and> 1 \<le> month dt \<and> month dt \<le> 12 \<and> 1 \<le> day dt \<and> day dt \<le> 31
     \<and> datetime_new (year dt) (month dt) (day dt) 0 0 0 = Inr dt"
  by (auto simp: extract_date_from_filename_def split: option.splits sum.splits dest: strptime_Ymd_Inr)

lemma datetime_new_nine:
  "datetime_new y m d 0 0 0 = Inr dt \<Longrightarrow>
   datetime_new y m d 9 0 0 = Inr (dt\<lparr>hour := 9, minute := 0, second := 0\<rparr>)"
  by (auto simp: datetime_new_def split: if_splits)

section \<open>The functions around the block\<close>

lemma piexif_load_Inr:
  "piexif_load lib b = Inr d \<Longrightarrow> \<exists>found. piexif_read lib b = Inr found
      \<and> d ''Exif'' = Some (case found ''Exif'' of None \<Rightarrow> Map.empty | Some s \<Rightarrow> s)
      \<and> d ''0th'' = Some (case found ''0th'' of None \<Rightarrow> Map.empty | Some s \<Rightarrow> s)"
  by (auto simp: piexif_load_def section_names_def split: sum.splits)

lemma fst_get_exif_date:
  "fst (get_exif_date lib img w) = embedded_date lib img"
  by (auto simp: embedded_date_def get_exif_date_def try_get_exif_date_def read_date_fields_def
      split: sum.splits option.splits)

lemma update_exif_date_eq:
  "update_exif_date lib img dt out w =
     (case new_exif_bytes lib img dt of
        Inr nb \<Rightarrow> (True, w\<lparr>files := (files w)(out \<mapsto> nb)\<rparr>)
      | Inl e \<Rightarrow> (False, print_error (ascii ''Error updating EXIF data for '' @ str_path img
                                      @ ascii '': '') e w))"
  by (simp add: update_exif_date_def try_update_exif_date_def split: sum.splits)

lemma files_print [simp]: "files (print s w) = files w"
  by (simp add: print_def)

lemma dirs_print [simp]: "dirs (print s w) = dirs w"
  by (simp add: print_def)

lemma files_print_error [simp]: "files (print_error s e w) = files w"
  by (simp add: print_error_def)

lemma dirs_print_error [simp]: "dirs (print_error s e w) = dirs w"
  by (simp add: print_error_def)

lemma files_copy2 [simp]: "files (copy2 img out w) = (files w)(out \<mapsto> data img)"
  by (simp add: copy2_def)

lemma dirs_copy2 [simp]: "dirs (copy2 img out w) = dirs w"
  by (simp add: copy2_def)

lemma files_get_exif_date [simp]: "files (snd (get_exif_date lib img w)) = files w"
  by (auto simp: get_exif_date_def try_get_exif_date_def read_date_fields_def
      split: sum.splits option.splits)

lemma dirs_get_exif_date [simp]: "dirs (snd (get_exif_date lib img w)) = dirs w"
  by (auto simp: get_exif_date_def try_get_exif_date_def read_date_fields_def
      split: sum.splits option.splits)

lemma process_file_no_date:
  assumes "extract_date_from_filename (name img) = Inr None"
  shows "\<exists>w'. process_file lib sub img (r, w) = Inr (r, w')
           \<and> files w' = (files w)(sub @ ascii ''/'' @ name img \<mapsto> data img) \<and> dirs w' = dirs w"
  using assms by (simp add: process_file_def Let_def)

lemma process_file_date:
  assumes "extract_date_from_filename (name img) = Inr (Some fd)"
  shows "\<exists>w'. process_file lib sub img (r, w) =
            Inr (case embedded_date lib img of
                   Some ed \<Rightarrow>
                     if date fd = date ed then r\<lparr>preserved := preserved r + 1\<rparr>
                     else (case new_exif_bytes lib img fd of
                             Inr nb \<Rightarrow> r\<lparr>updated := updated r + 1\<rparr>
                           | Inl e \<Rightarrow> r\<lparr>failed := failed r + 1\<rparr>)
                 | None \<Rightarrow>
                     (case new_exif_bytes lib img fd of
                        Inr nb \<Rightarrow> r\<lparr>added := added r + 1\<rparr>
                      | Inl e \<Rightarrow> r\<lparr>failed := failed r + 1\<rparr>), w')
           \<and> files w' = (files w)(sub @ ascii ''/'' @ name img \<mapsto>
                 (case embedded_date lib img of
                   Some ed \<Rightarrow>
                     if date fd = date ed then data img
                     else (case new_exif_bytes lib img fd of Inr nb \<Rightarrow> nb | Inl e \<Rightarrow> data img)
                 | None \<Rightarrow> (case new_exif_bytes lib img fd of Inr nb \<Rightarrow> nb | Inl e \<Rightarrow> data img)))
           \<and> dirs w' = dirs w"
  using assms
  by (simp add: process_file_def Let_def fst_get_exif_date update_exif_date_eq
      split: option.splits sum.splits)

section \<open>The sample inputs\<close>

lemma repeat_re_8:
  "repeat_re 8 P (a # b # c # d # e # f # g # h # r) =
     (if P a \<and> P b \<and> P c \<and> P d \<and> P e \<and> P f \<and> P g \<and> P h
      then [([a, b, c, d, e, f, g, h], r)] else [])"
proof -
  have e: "repeat_re 8 P = repeat_re (Suc (Suc (Suc (Suc (Suc (Suc (Suc (Suc 0)))))))) P"
    by (simp add: eval_nat_numeral)
  show ?thesis unfolding e by (simp add: then_re_def char_re_def pure_re_def)
qed

lemmas extract_defs =
  extract_date_from_filename_def strptime_Ymd_def pattern_def regex_Ymd_def re_Y_def re_m_def
  re_d_def re_match_def then_re_def alt_re_def lit_def char_re_def pure_re_def repeat_re_4
  repeat_re_8 d2_Cons d1_Cons d2_short one_of_def ascii_def cp_def is_digit_def digit_val_def
  decimal_def decimal_zeros_def int_of_digits_def

lemma extract_sample: "extract_date_from_filename (name sample_image) = Inr (Some sample_date)"
  by (simp add: sample_image_def sample_date_def extract_defs date_defs)

lemma plain_lib_sample:
  "embedded_date plain_lib sample_image = None"
  "new_exif_bytes plain_lib sample_image dt = Inr ''EXIFJPEG''"
  by (simp_all add: embedded_date_def get_exif_date_def try_get_exif_date_def read_date_fields_def
      new_exif_bytes_def set_date_fields_eq piexif_load_def plain_lib_def sample_image_def
      section_names_def)

lemma broken_lib_sample:
  "embedded_date broken_lib sample_image = None"
  "new_exif_bytes broken_lib sample_image dt = Inl (LibraryError ''not a JPEG'')"
  by (simp_all add: embedded_date_def get_exif_date_def try_get_exif_date_def
      new_exif_bytes_def piexif_load_def broken_lib_def sample_image_def)

lemma parse_field_zero:
  "parse_field (Bytes ''0000:00:00 00:00:00'') = Inl ValueError"
  by (simp add: parse_field_def decode_utf8_def cp_def cons_point_def strptime_exif_def regex_exif_def
      re_match_def then_re_def re_Y_def repeat_re_4 pure_re_def lit_def char_re_def re_m_def
      alt_re_def d2_Cons d1_Cons one_of_def ascii_def is_digit_def decimal_def decimal_zeros_def)

lemma garbled_lib_sample:
  "try_get_exif_date garbled_lib sample_image w = Inl ValueError"
  "new_exif_bytes garbled_lib sample_image dt = Inr ''EXIFJPEG''"
  by (simp_all add: try_get_exif_date_def read_date_fields_def parse_field_zero
      new_exif_bytes_def set_date_fields_eq piexif_load_def garbled_lib_def
      sample_image_def section_names_def)

lemma map_char_of_ascii: "map char_of (ascii cs) = cs"
  by (simp add: ascii_def cp_def comp_def)


lemma strftime_early:
  "strftime early_date (ascii ''%Y:%m:%d 09:00:00'') = ascii ''999:01:01 09:00:00''"
  unfolding strftime_nine
  by (simp add: early_date_def str_nat_below_1000 zfill2 digit_char_def ascii_def cp_def)

section \<open>The date in the file name: what the code does\<close>

text \<open>
  C2. The claim: a file name that matches the pattern with eight digits that are not a
  date makes \<open>_extract_date_from_filename\<close> return none. In the code the ValueError of
  \<open>strptime\<close> is not caught: for \<open>IMG-20201307-WA0029.jpg\<close> (month 13) the function raises
  instead of returning none.
\<close>

theorem extract_date_invalid_month_raises:
  "extract_date_from_filename (ascii ''IMG-20201307-WA0029.jpg'') = Inl ValueError"
  by (simp add: extract_defs date_defs)

section \<open>Writing the date: the three fields\<close>



section \<open>The decision for one file\<close>

text \<open>
  C1. For every file whose name is read without an exception, the body of the loop acts
  by the four rows of the table, comparing calendar dates only. No file name date:
  Unparseable, the file is copied as it is and no counter moves. A file name date and no
  embedded date: Add. Both, on the same day: Preserve, the file is copied as it is and
  \<open>preserved\<close> is incremented. Both, on different days: Overwrite. Add and Overwrite write
  the new bytes and increment \<open>added\<close> and \<open>updated\<close>; when the write fails they copy the file
  and increment \<open>failed\<close>.
\<close>

theorem main_follows_decision_table:
  assumes "extract_date_from_filename (name img) = Inr fd"
  shows "\<exists>r' w'. process_file lib sub img (r, w) = Inr (r', w')
     \<and> (fd = None \<longrightarrow>
           reconcile fd (embedded_date lib img) = Unparseable
           \<and> r' = r \<and> files w' (sub @ ascii ''/'' @ name img) = Some (data img))
     \<and> (\<forall>d. fd = Some d \<and> embedded_date lib img = None \<longrightarrow>
           reconcile fd (embedded_date lib img) = Add
           \<and> (case new_exif_bytes lib img d of
                Inr nb \<Rightarrow> r' = r\<lparr>added := added r + 1\<rparr> \<and> files w' (sub @ ascii ''/'' @ name img) = Some nb
              | Inl e \<Rightarrow> r' = r\<lparr>failed := failed r + 1\<rparr>
                         \<and> files w' (sub @ ascii ''/'' @ name img) = Some (data img)))
     \<and> (\<forall>d ed. fd = Some d \<and> embedded_date lib img = Some ed \<and> date d = date ed \<longrightarrow>
           reconcile fd (embedded_date lib img) = Preserve
           \<and> r' = r\<lparr>preserved := preserved r + 1\<rparr>
           \<and> files w' (sub @ ascii ''/'' @ name img) = Some (data img))
     \<and> (\<forall>d ed. fd = Some d \<and> embedded_date lib img = Some ed \<and> date d \<noteq> date ed \<longrightarrow>
           reconcile fd (embedded_date lib img) = Overwrite
           \<and> (case new_exif_bytes lib img d of
                Inr nb \<Rightarrow> r' = r\<lparr>updated := updated r + 1\<rparr> \<and> files w' (sub @ ascii ''/'' @ name img) = Some nb
              | Inl e \<Rightarrow> r' = r\<lparr>failed := failed r + 1\<rparr>
                         \<and> files w' (sub @ ascii ''/'' @ name img) = Some (data img)))"
proof (cases fd)
  case None
  from process_file_no_date [OF assms [unfolded None], of lib sub r w]
  obtain w' where "process_file lib sub img (r, w) = Inr (r, w')"
    "files w' = (files w)(sub @ ascii ''/'' @ name img \<mapsto> data img)"
    by blast
  then show ?thesis using None by simp
next
  case (Some d)
  from process_file_date [OF assms [unfolded Some], of lib sub r w]
  obtain w' r' where p: "process_file lib sub img (r, w) = Inr (r', w')"
    and r': "r' = (case embedded_date lib img of
                   Some ed \<Rightarrow>
                     if date d = date ed then r\<lparr>preserved := preserved r + 1\<rparr>
                     else (case new_exif_bytes lib img d of
                             Inr nb \<Rightarrow> r\<lparr>updated := updated r + 1\<rparr>
                           | Inl e \<Rightarrow> r\<lparr>failed := failed r + 1\<rparr>)
                 | None \<Rightarrow>
                     (case new_exif_bytes lib img d of
                        Inr nb \<Rightarrow> r\<lparr>added := added r + 1\<rparr>
                      | Inl e \<Rightarrow> r\<lparr>failed := failed r + 1\<rparr>))"
    and f: "files w' = (files w)(sub @ ascii ''/'' @ name img \<mapsto>
                 (case embedded_date lib img of
                   Some ed \<Rightarrow>
                     if date d = date ed then data img
                     else (case new_exif_bytes lib img d of Inr nb \<Rightarrow> nb | Inl e \<Rightarrow> data img)
                 | None \<Rightarrow> (case new_exif_bytes lib img d of Inr nb \<Rightarrow> nb | Inl e \<Rightarrow> data img)))"
    by blast
  show ?thesis
    apply (rule exI [of _ r'], rule exI [of _ w'])
    apply (simp only: p Some)
    apply (cases "embedded_date lib img"; cases "new_exif_bytes lib img d")
    apply (simp_all add: r' f)
    done
qed

theorem main_follows_decision_table_witness:
  "extract_date_from_filename (name sample_image) = Inr (Some sample_date)
   \<and> embedded_date plain_lib sample_image = None
   \<and> reconcile (Some sample_date) (embedded_date plain_lib sample_image) = Add
   \<and> (\<exists>w'. process_file plain_lib (ascii ''output'') sample_image (new_report, empty_world)
              = Inr (new_report\<lparr>added := added new_report + 1\<rparr>, w')
            \<and> files w' (ascii ''output'' @ ascii ''/'' @ name sample_image) = Some ''EXIFJPEG'')"
  using main_follows_decision_table [OF extract_sample, of plain_lib "ascii ''output''" new_report empty_world]
  by (simp add: plain_lib_sample extract_sample)

section \<open>Failures\<close>

text \<open>
  C7. \<open>_update_exif_date\<close> returns True when its body ran through and False when
  anything in it raised; no exception leaves it. For every file with a file name date
  for which it is called (the dates differ, or there is no embedded date) and returns
  False, the body of the loop copies the file as it is and increments \<open>failed\<close> by one.
\<close>

theorem update_failure_falls_back:
  "(fst (update_exif_date lib img dt out w) = (\<not> isl (new_exif_bytes lib img dt)))
   \<and> (extract_date_from_filename (name img) = Inr (Some fd)
        \<and> reconcile (Some fd) (embedded_date lib img) \<noteq> Preserve
        \<and> \<not> fst (update_exif_date lib img fd out w)
      \<longrightarrow> (\<exists>w'. process_file lib sub img (r, w0) = Inr (r\<lparr>failed := failed r + 1\<rparr>, w')
                \<and> files w' (sub @ ascii ''/'' @ name img) = Some (data img)))"
proof (intro conjI impI)
  show "fst (update_exif_date lib img dt out w) = (\<not> isl (new_exif_bytes lib img dt))"
    by (simp add: update_exif_date_eq split: sum.splits)
next
  assume a: "extract_date_from_filename (name img) = Inr (Some fd)
        \<and> reconcile (Some fd) (embedded_date lib img) \<noteq> Preserve
        \<and> \<not> fst (update_exif_date lib img fd out w)"
  then obtain e where e: "new_exif_bytes lib img fd = Inl e"
    by (auto simp: update_exif_date_eq split: sum.splits)
  from a have x: "extract_date_from_filename (name img) = Inr (Some fd)" by simp
  from process_file_date [OF x, of lib sub r w0]
  obtain w' where p: "process_file lib sub img (r, w0) =
            Inr (case embedded_date lib img of
                   Some ed \<Rightarrow>
                     if date fd = date ed then r\<lparr>preserved := preserved r + 1\<rparr>
                     else (case new_exif_bytes lib img fd of
                             Inr nb \<Rightarrow> r\<lparr>updated := updated r + 1\<rparr>
                           | Inl e \<Rightarrow> r\<lparr>failed := failed r + 1\<rparr>)
                 | None \<Rightarrow>
                     (case new_exif_bytes lib img fd of
                        Inr nb \<Rightarrow> r\<lparr>added := added r + 1\<rparr>
                      | Inl e \<Rightarrow> r\<lparr>failed := failed r + 1\<rparr>), w')"
    and f: "files w' = (files w0)(sub @ ascii ''/'' @ name img \<mapsto>
                 (case embedded_date lib img of
                   Some ed \<Rightarrow>
                     if date fd = date ed then data img
                     else (case new_exif_bytes lib img fd of Inr nb \<Rightarrow> nb | Inl e \<Rightarrow> data img)
                 | None \<Rightarrow> (case new_exif_bytes lib img fd of Inr nb \<Rightarrow> nb | Inl e \<Rightarrow> data img)))"
    by blast
  show "\<exists>w'. process_file lib sub img (r, w0) = Inr (r\<lparr>failed := failed r + 1\<rparr>, w')
                \<and> files w' (sub @ ascii ''/'' @ name img) = Some (data img)"
    apply (rule exI [of _ w'])
    using a apply (cases "embedded_date lib img")
    apply (simp_all add: p f e split: if_splits)
    done
qed

theorem update_failure_falls_back_witness:
  "extract_date_from_filename (name sample_image) = Inr (Some sample_date)
   \<and> reconcile (Some sample_date) (embedded_date broken_lib sample_image) \<noteq> Preserve
   \<and> \<not> fst (update_exif_date broken_lib sample_image sample_date (ascii ''x'') empty_world)
   \<and> (\<exists>w'. process_file broken_lib (ascii ''output'') sample_image (new_report, empty_world)
              = Inr (new_report\<lparr>failed := failed new_report + 1\<rparr>, w')
            \<and> files w' (ascii ''output'' @ ascii ''/'' @ name sample_image) = Some (data sample_image))"
  using update_failure_falls_back [of broken_lib sample_image sample_date "ascii ''x''" empty_world
      sample_date "ascii ''output''" new_report empty_world]
  by (simp add: broken_lib_sample extract_sample update_exif_date_eq)

section \<open>A failed read of the embedded date\<close>

lemma try_get_exif_date_Inl:
  "try_get_exif_date lib img w = Inl e \<Longrightarrow> embedded_date lib img = None"
  by (auto simp: embedded_date_def get_exif_date_def try_get_exif_date_def read_date_fields_def
      split: sum.splits option.splits)

lemma strftime_sample_iso:
  "strftime sample_date (ascii ''%Y-%m-%d'') = ascii ''2020-11-07''"
  by (simp add: ascii_def cp_def strftime.simps directive_def sample_date_def
      str_nat_below_10000 zfill2 digit_char_def)

text \<open>
  C4. The claim: when the file name gives a date and reading the embedded metadata
  fails, the file is copied unmodified and \<open>failed\<close> is incremented. In the sample the
  date-time original is \<open>0000:00:00 00:00:00\<close>, so the read raises ValueError; the
  exception is caught, the date is added, \<open>added\<close> is incremented and the output is not the input.
\<close>

theorem read_failure_counterexample:
  "try_get_exif_date garbled_lib sample_image empty_world = Inl ValueError
   \<and> process_file garbled_lib (ascii ''output'') sample_image (new_report, empty_world)
     = Inr (\<lparr>updated = 0, added = 1, failed = 0, preserved = 0\<rparr>,
            \<lparr>stdout =
               [Line (10 # ascii ''Processing: IMG-20201107-WA0029.jpg''),
                Line (ascii ''  Date from filename: 2020-11-07''),
                LineWithError (ascii ''Error reading EXIF data from input/IMG-20201107-WA0029.jpg: '')
                  ValueError,
                Line (ascii ''  No EXIF date found - adding date from filename''),
                Line (ascii ''  Successfully added EXIF date'')],
             dirs = {},
             files = [ascii ''output/IMG-20201107-WA0029.jpg'' \<mapsto> ''EXIFJPEG'']\<rparr>)
   \<and> data sample_image = ''JPEG''"
  apply (simp add: process_file_def Let_def extract_sample garbled_lib_sample get_exif_date_def
      update_exif_date_eq print_def print_error_def empty_world_def new_report_def)
  apply (simp add: sample_image_def str_path_def strftime_sample_iso)
  apply (simp add: ascii_def cp_def)
  done

text \<open>
  C4, as the code has it. When the file name gives a date and the read of the embedded
  metadata raises, the exception is caught in \<open>_get_exif_date\<close> and the file is treated
  as one with no embedded date: the date is added. The file is copied unmodified and
  \<open>failed\<close> is incremented only when \<open>_update_exif_date\<close> fails as well; otherwise the new
  bytes are written and \<open>added\<close> is incremented.
\<close>

theorem read_failure_is_no_date:
  assumes "extract_date_from_filename (name img) = Inr (Some fd)"
    and "try_get_exif_date lib img w0 = Inl e"
  shows "fst (get_exif_date lib img w0) = None
     \<and> (\<exists>w'. process_file lib sub img (r, w)
               = Inr (case new_exif_bytes lib img fd of
                        Inr nb \<Rightarrow> r\<lparr>added := added r + 1\<rparr>
                      | Inl e' \<Rightarrow> r\<lparr>failed := failed r + 1\<rparr>, w')
             \<and> files w' (sub @ ascii ''/'' @ name img)
               = Some (case new_exif_bytes lib img fd of Inr nb \<Rightarrow> nb | Inl e' \<Rightarrow> data img))"
proof -
  have n: "embedded_date lib img = None"
    by (rule try_get_exif_date_Inl [OF assms(2)])
  from process_file_date [OF assms(1), of lib sub r w]
  show ?thesis by (auto simp: n fst_get_exif_date)
qed

theorem read_failure_is_no_date_witness:
  "extract_date_from_filename (name sample_image) = Inr (Some sample_date)
   \<and> try_get_exif_date garbled_lib sample_image empty_world = Inl ValueError
   \<and> fst (get_exif_date garbled_lib sample_image empty_world) = None
   \<and> (\<exists>w'. process_file garbled_lib (ascii ''output'') sample_image (new_report, empty_world)
              = Inr (new_report\<lparr>added := added new_report + 1\<rparr>, w')
            \<and> files w' (ascii ''output'' @ ascii ''/'' @ name sample_image) = Some ''EXIFJPEG'')"
  using read_failure_is_no_date [OF extract_sample garbled_lib_sample(1),
      of empty_world "ascii ''output''" new_report empty_world]
  by (simp add: garbled_lib_sample extract_sample)

section \<open>The counters\<close>

lemma total_bump [simp]:
  "total (r\<lparr>updated := updated r + 1\<rparr>) = total r + 1"
  "total (r\<lparr>added := added r + 1\<rparr>) = total r + 1"
  "total (r\<lparr>failed := failed r + 1\<rparr>) = total r + 1"
  "total (r\<lparr>preserved := preserved r + 1\<rparr>) = total r + 1"
  by (simp_all add: total_def)

lemma process_file_counts:
  "(has_filename_date img \<longrightarrow>
      (\<exists>r' w'. process_file lib sub img (r, w) = Inr (r', w')
         \<and> r' \<in> {r\<lparr>updated := updated r + 1\<rparr>, r\<lparr>added := added r + 1\<rparr>,
                  r\<lparr>failed := failed r + 1\<rparr>, r\<lparr>preserved := preserved r + 1\<rparr>}))
   \<and> (extract_date_from_filename (name img) = Inr None \<longrightarrow>
      (\<exists>w'. process_file lib sub img (r, w) = Inr (r, w')))
   \<and> (\<forall>e. extract_date_from_filename (name img) = Inl e \<longrightarrow>
      (\<exists>w'. process_file lib sub img (r, w) = Inl (e, w')))"
proof (intro conjI impI allI)
  assume "has_filename_date img"
  then obtain fd where x: "extract_date_from_filename (name img) = Inr (Some fd)"
    by (auto simp: has_filename_date_def split: sum.splits option.splits)
  from process_file_date [OF x, of lib sub r w]
  show "\<exists>r' w'. process_file lib sub img (r, w) = Inr (r', w')
         \<and> r' \<in> {r\<lparr>updated := updated r + 1\<rparr>, r\<lparr>added := added r + 1\<rparr>,
                  r\<lparr>failed := failed r + 1\<rparr>, r\<lparr>preserved := preserved r + 1\<rparr>}"
    by (cases "embedded_date lib img"; cases "new_exif_bytes lib img fd") auto
next
  assume "extract_date_from_filename (name img) = Inr None"
  from process_file_no_date [OF this, of lib sub r w]
  show "\<exists>w'. process_file lib sub img (r, w) = Inr (r, w')" by blast
next
  fix e assume "extract_date_from_filename (name img) = Inl e"
  then show "\<exists>w'. process_file lib sub img (r, w) = Inl (e, w')"
    by (simp add: process_file_def Let_def)
qed

lemma process_file_total:
  assumes "process_file lib sub img (r, w) = Inr (r', w')"
  shows "total r' = total r + (if has_filename_date img then 1 else 0)"
proof (cases "extract_date_from_filename (name img)")
  case (Inl e)
  with assms show ?thesis by (simp add: process_file_def Let_def)
next
  case (Inr fd)
  show ?thesis
  proof (cases fd)
    case None
    from process_file_no_date [OF Inr [unfolded None], of lib sub r w] assms
    have "r' = r" by auto
    then show ?thesis using Inr None by (simp add: has_filename_date_def)
  next
    case (Some d)
    have h: "has_filename_date img" using Inr Some by (simp add: has_filename_date_def)
    from process_file_date [OF Inr [unfolded Some], of lib sub r w] assms
    have "total r' = total r + 1"
      by (cases "embedded_date lib img"; cases "new_exif_bytes lib img d")
         (auto simp: total_def split: if_splits)
    then show ?thesis using h by simp
  qed
qed

lemma process_files_total:
  "process_files lib sub imgs (r, w) = Inr (r', w')
   \<Longrightarrow> total r' = total r + length (filter has_filename_date imgs)"
proof (induction imgs arbitrary: r w)
  case Nil
  then show ?case by simp
next
  case (Cons img imgs)
  from Cons.prems obtain r1 w1 where s: "process_file lib sub img (r, w) = Inr (r1, w1)"
    and t: "process_files lib sub imgs (r1, w1) = Inr (r', w')"
    by (auto split: sum.splits)
  from process_file_total [OF s] Cons.IH [OF t] show ?case by simp
qed

section \<open>The report at the end of the run\<close>

lemma total_new_report [simp]: "total new_report = 0"
  by (simp add: total_def new_report_def)

lemma has_filename_date_sample: "has_filename_date sample_image"
  by (simp add: has_filename_date_def extract_sample)

text \<open>
  C5. A file whose name gives a date is processed and increments exactly one of
  \<open>updated\<close>, \<open>added\<close>, \<open>failed\<close>, \<open>preserved\<close> by one, the others staying as they are; a
  file whose name gives no date is processed and leaves the report as it is. So when
  the loop over the files ends, the four counters add up to the number of files whose
  name gives a date, and this is the report that \<open>main\<close> prints last.
\<close>

theorem counters_count_dated_files:
  "(has_filename_date img \<longrightarrow>
      (\<exists>r' w'. process_file lib sub img (r, w) = Inr (r', w')
         \<and> r' \<in> {r\<lparr>updated := updated r + 1\<rparr>, r\<lparr>added := added r + 1\<rparr>,
                  r\<lparr>failed := failed r + 1\<rparr>, r\<lparr>preserved := preserved r + 1\<rparr>}))
   \<and> (extract_date_from_filename (name img) = Inr None \<longrightarrow>
        (\<exists>w'. process_file lib sub img (r, w) = Inr (r, w')))
   \<and> (\<forall>rn wn. process_files lib sub imgs (new_report, w) = Inr (rn, wn) \<longrightarrow>
        total rn = length (filter has_filename_date imgs))
   \<and> (\<forall>wf. main e lib w = Inr wf \<and> fst (read_files e w) \<noteq> [] \<longrightarrow>
        (\<exists>rep. last (stdout wf) = Line (as_text rep)
           \<and> total rep = length (filter has_filename_date (fst (read_files e w)))))"
proof (intro conjI allI impI)
  assume "has_filename_date img"
  with process_file_counts [of img lib sub r w]
  show "\<exists>r' w'. process_file lib sub img (r, w) = Inr (r', w')
         \<and> r' \<in> {r\<lparr>updated := updated r + 1\<rparr>, r\<lparr>added := added r + 1\<rparr>,
                  r\<lparr>failed := failed r + 1\<rparr>, r\<lparr>preserved := preserved r + 1\<rparr>}"
    by blast
next
  assume "extract_date_from_filename (name img) = Inr None"
  with process_file_counts [of img lib sub r w]
  show "\<exists>w'. process_file lib sub img (r, w) = Inr (r, w')" by blast
next
  fix rn wn assume "process_files lib sub imgs (new_report, w) = Inr (rn, wn)"
  from process_files_total [OF this]
  show "total rn = length (filter has_filename_date imgs)" by simp
next
  fix wf assume a: "main e lib w = Inr wf \<and> fst (read_files e w) \<noteq> []"
  define fs where "fs = fst (read_files e w)"
  define out where "out = OUTPUT_DIR e @ ascii ''/'' @ strftime (now e) (ascii ''%Y%m%d_%H%M%S'')"
  from a obtain rn wn where
    p: "process_files lib out fs (new_report, mkdir out (snd (read_files e w))) = Inr (rn, wn)"
    and wf: "stdout wf = stdout wn @ [Line (10 # ascii ''Processing complete. Check the '' @ [39]
                                      @ out @ [39] @ ascii '' directory for results.''),
                                    Line (ascii ''Update Report:''), Line (as_text rn)]"
    unfolding fs_def out_def
    by (auto simp: main_def Let_def print_def split: sum.splits)
  from process_files_total [OF p] have "total rn = length (filter has_filename_date fs)" by simp
  moreover from wf have "last (stdout wf) = Line (as_text rn)" by simp
  ultimately show "\<exists>rep. last (stdout wf) = Line (as_text rep)
           \<and> total rep = length (filter has_filename_date (fst (read_files e w)))"
    unfolding fs_def by blast
qed

theorem counters_count_dated_files_witness:
  "has_filename_date sample_image
   \<and> (\<exists>rn wn. process_files plain_lib (ascii ''output'') [sample_image] (new_report, empty_world) = Inr (rn, wn)
        \<and> total rn = 1)"
proof -
  note t = counters_count_dated_files [of sample_image plain_lib "ascii ''output''" new_report empty_world
      "[sample_image]" no_images]
  from t has_filename_date_sample obtain r' w' where
    p: "process_file plain_lib (ascii ''output'') sample_image (new_report, empty_world) = Inr (r', w')"
    by blast
  then have q: "process_files plain_lib (ascii ''output'') [sample_image] (new_report, empty_world) = Inr (r', w')"
    by simp
  with t have "total r' = length (filter has_filename_date [sample_image])" by blast
  with q has_filename_date_sample show ?thesis by simp
qed

section \<open>An empty input directory\<close>

lemma str_nat_0: "str_nat 0 = ascii ''0''"
  by (simp add: str_nat_below_10 digit_char_def ascii_def cp_def)

text \<open>
  C9. When the four patterns list no file, \<open>main\<close> prints the number of files found and
  the line that says that no file was found, and returns: no directory is made, no file
  is written, and neither the closing line nor the report is printed.
\<close>

theorem main_no_files:
  assumes "glob e ''*.jpg'' = []" "glob e ''*.JPG'' = []" "glob e ''*.jpeg'' = []"
    "glob e ''*.JPEG'' = []"
  shows "main e lib w = Inr (w\<lparr>stdout := stdout w @ [Line (ascii ''Found 0 image(s) to process''),
                                                  Line (ascii ''No .jpg files found in input directory'')]\<rparr>)"
  using assms by (simp add: main_def read_files_def Let_def print_def str_nat_0) (simp add: ascii_def)

theorem main_no_files_witness:
  "glob no_images ''*.jpg'' = [] \<and> glob no_images ''*.JPG'' = [] \<and> glob no_images ''*.jpeg'' = []
   \<and> glob no_images ''*.JPEG'' = []
   \<and> main no_images plain_lib empty_world
       = Inr \<lparr>stdout = [Line (ascii ''Found 0 image(s) to process''),
                        Line (ascii ''No .jpg files found in input directory'')],
              dirs = {}, files = Map.empty\<rparr>"
  using main_no_files [of no_images plain_lib empty_world]
  by (simp add: no_images_def empty_world_def)

section \<open>Reading back what was written\<close>

text \<open>From the year 1000 on, the text that is written is the padded text of the date at
  09:00:00, and reading the date fields of the block gives that date and time back.\<close>

lemma read_back_from_year_1000:
  assumes x: "extract_date_from_filename filename = Inr (Some dt)" and y: "1000 \<le> year dt"
  shows "\<exists>d'. set_date_fields d dt = Inr d'
     \<and> read_date_fields d' img w = Inr (Some (dt\<lparr>hour := 9, minute := 0, second := 0\<rparr>), w)"
proof -
  from extract_Some_valid [OF x]
  have v: "datetime_new (year dt) (month dt) (day dt) 0 0 0 = Inr dt" and u: "year dt \<le> 9999"
    by simp_all
  obtain d' where s: "set_date_fields d dt = Inr d'"
    using set_date_fields_eq by blast
  from set_date_fields_Exif [OF s] obtain e where
    e: "d' ''Exif'' = Some e"
       "e DateTimeOriginal = Some (Bytes (map char_of (strftime dt (ascii ''%Y:%m:%d 09:00:00''))))"
    by blast
  have p: "parse_field (Bytes (map char_of (strftime dt (ascii ''%Y:%m:%d 09:00:00''))))
           = Inr (dt\<lparr>hour := 9, minute := 0, second := 0\<rparr>)"
    unfolding strftime_nine_exif_text [OF y u]
    using parse_field_exif_text [OF datetime_new_nine [OF v]] by simp
  have "read_date_fields d' img w = Inr (Some (dt\<lparr>hour := 9, minute := 0, second := 0\<rparr>), w)"
    by (simp add: read_date_fields_def e p)
  with s show ?thesis by blast
qed

lemma extract_early: "extract_date_from_filename (name early_image) = Inr (Some early_date)"
  by (simp add: early_image_def early_date_def extract_defs date_defs)

lemma set_date_fields_early: "set_date_fields Map.empty early_date = Inr early_block"
  by (simp only: set_date_fields_eq strftime_early map_char_of_ascii early_block_def)
     simp

lemma parse_field_early: "parse_field (Bytes ''999:01:01 09:00:00'') = Inl ValueError"
  by (simp add: parse_field_def decode_utf8_def cp_def cons_point_def strptime_exif_def regex_exif_def
      re_match_def then_re_def re_Y_def repeat_re_4 is_digit_def decimal_def decimal_zeros_def)

text \<open>
  C8. The claim: for every date of a file name, the date that is written is read back as
  that date at 09:00:00. For \<open>IMG-09990101-WA0001.jpg\<close> the date is 1 January 999;
  \<open>%Y\<close> writes the year as \<open>999\<close>, the three fields hold \<open>999:01:01 09:00:00\<close>, and
  \<open>strptime\<close>, which wants four digits for \<open>%Y\<close>, refuses that text: reading the date
  fields of the written block raises ValueError and \<open>_get_exif_date\<close> returns None.
\<close>

theorem written_date_before_1000_not_read_back:
  "extract_date_from_filename (name early_image) = Inr (Some early_date)
   \<and> set_date_fields Map.empty early_date = Inr early_block
   \<and> lookup_field early_block ''Exif'' DateTimeOriginal = Some (Bytes ''999:01:01 09:00:00'')
   \<and> read_date_fields early_block early_image empty_world = Inl ValueError
   \<and> piexif_read early_lib (data early_image) = Inr early_block
   \<and> fst (get_exif_date early_lib early_image empty_world) = None"
  by (simp add: extract_early set_date_fields_early)
     (simp add: early_block_def lookup_field_def read_date_fields_def parse_field_early
       get_exif_date_def try_get_exif_date_def piexif_load_def early_lib_def section_names_def)

section \<open>The fields that are not dates\<close>

lemma camera_lib_loads:
  "\<exists>d. piexif_load camera_lib (data sample_image) = Inr d
       \<and> lookup_field d ''0th'' 271 = Some (Bytes ''Canon'')
       \<and> lookup_field d ''Exif'' 33437 = Some (Number 4)
       \<and> lookup_field d ''GPS'' 1 = Some (Bytes ''N'')"
  by (simp add: piexif_load_def camera_lib_def camera_block_def section_names_def lookup_field_def
      DateTime_def DateTimeOriginal_def)

lemma camera_lib_updates:
  "new_exif_bytes camera_lib sample_image dt = Inr ''EXIFJPEG''"
  by (simp add: new_exif_bytes_def set_date_fields_eq piexif_load_def camera_lib_def
      sample_image_def)

text \<open>
  C10. Whenever \<open>_update_exif_date\<close> returns True, the block that was loaded from the
  file, with its date fields set, is the block that was dumped and inserted into the
  output; every field of the loaded block other than the date-time original, the
  date-time digitized and the top-level date-time has the same value in it.
\<close>

theorem update_keeps_other_fields:
  assumes "fst (update_exif_date lib img dt out w)"
  shows "\<exists>d d' exif_bytes new_bytes.
       piexif_load lib (data img) = Inr d
     \<and> set_date_fields d dt = Inr d'
     \<and> piexif_dump lib d' = Inr exif_bytes
     \<and> piexif_insert lib exif_bytes (data img) = Inr new_bytes
     \<and> files (snd (update_exif_date lib img dt out w)) out = Some new_bytes
     \<and> (\<forall>sec tag. \<not> date_field sec tag \<longrightarrow> lookup_field d' sec tag = lookup_field d sec tag)"
proof -
  from assms obtain nb where nb: "new_exif_bytes lib img dt = Inr nb"
    by (auto simp: update_exif_date_eq split: sum.splits)
  then obtain d d' eb where
    l: "piexif_load lib (data img) = Inr d" and s: "set_date_fields d dt = Inr d'"
    and p: "piexif_dump lib d' = Inr eb" and i: "piexif_insert lib eb (data img) = Inr nb"
    by (auto simp: new_exif_bytes_def split: sum.splits)
  have f: "files (snd (update_exif_date lib img dt out w)) out = Some nb"
    by (simp add: update_exif_date_eq nb)
  have k: "\<forall>sec tag. \<not> date_field sec tag \<longrightarrow> lookup_field d' sec tag = lookup_field d sec tag"
    by (simp add: lookup_set_date_fields [OF s])
  from l s p i f k show ?thesis by blast
qed

theorem update_keeps_other_fields_witness:
  "fst (update_exif_date camera_lib sample_image sample_date (ascii ''out'') empty_world)
   \<and> \<not> date_field ''0th'' 271 \<and> \<not> date_field ''Exif'' 33437 \<and> \<not> date_field ''GPS'' 1
   \<and> (\<exists>d d'. piexif_load camera_lib (data sample_image) = Inr d
          \<and> set_date_fields d sample_date = Inr d'
          \<and> lookup_field d ''0th'' 271 = Some (Bytes ''Canon'')
          \<and> lookup_field d' ''0th'' 271 = Some (Bytes ''Canon'')
          \<and> lookup_field d ''Exif'' 33437 = Some (Number 4)
          \<and> lookup_field d' ''Exif'' 33437 = Some (Number 4)
          \<and> lookup_field d ''GPS'' 1 = Some (Bytes ''N'')
          \<and> lookup_field d' ''GPS'' 1 = Some (Bytes ''N''))"
proof -
  have a: "fst (update_exif_date camera_lib sample_image sample_date (ascii ''out'') empty_world)"
    by (simp add: update_exif_date_eq camera_lib_updates)
  have n: "\<not> date_field ''0th'' 271" "\<not> date_field ''Exif'' 33437" "\<not> date_field ''GPS'' 1"
    by (simp_all add: date_field_def DateTime_def DateTimeOriginal_def DateTimeDigitized_def)
  from update_keeps_other_fields [OF a] obtain d d' where
    l: "piexif_load camera_lib (data sample_image) = Inr d"
    and s: "set_date_fields d sample_date = Inr d'"
    and k: "\<forall>sec tag. \<not> date_field sec tag \<longrightarrow> lookup_field d' sec tag = lookup_field d sec tag"
    by blast
  from camera_lib_loads l have c: "lookup_field d ''0th'' 271 = Some (Bytes ''Canon'')"
    "lookup_field d ''Exif'' 33437 = Some (Number 4)" "lookup_field d ''GPS'' 1 = Some (Bytes ''N'')"
    by auto
  from k n c have c': "lookup_field d' ''0th'' 271 = Some (Bytes ''Canon'')"
    "lookup_field d' ''Exif'' 33437 = Some (Number 4)" "lookup_field d' ''GPS'' 1 = Some (Bytes ''N'')"
    by simp_all
  from a n l s c c' show ?thesis by blast
qed

section \<open>Reading the embedded date: which field, and no exception\<close>

lemma get_exif_date_load_error:
  "piexif_load lib (data img) = Inl e \<Longrightarrow> fst (get_exif_date lib img w) = None"
  by (simp add: get_exif_date_def try_get_exif_date_def)

lemma get_exif_date_loaded:
  assumes "piexif_load lib (data img) = Inr d"
  shows "fst (get_exif_date lib img w) =
     (case lookup_field d ''Exif'' DateTimeOriginal of
        Some v \<Rightarrow> (case parse_field v of Inr t \<Rightarrow> Some t | Inl e \<Rightarrow> None)
      | None \<Rightarrow>
          (case lookup_field d ''0th'' DateTime of
             Some v \<Rightarrow> (case parse_field v of Inr t \<Rightarrow> Some t | Inl e \<Rightarrow> None)
           | None \<Rightarrow> None))"
proof -
  from piexif_load_Inr [OF assms] obtain x z where s: "d ''Exif'' = Some x" "d ''0th'' = Some z"
    by blast
  show ?thesis
    by (simp add: get_exif_date_def try_get_exif_date_def assms read_date_fields_def
        lookup_field_def s split: option.splits sum.splits)
qed

lemma dated_lib_sample:
  "piexif_load dated_lib (data sample_image) = Inr d \<Longrightarrow>
     lookup_field d ''Exif'' DateTimeOriginal = Some (Bytes ''2020:11:07 14:22:01'')"
  by (auto simp: piexif_load_def dated_lib_def section_names_def lookup_field_def)

lemma dated_lib_loads: "\<exists>d. piexif_load dated_lib (data sample_image) = Inr d"
  by (simp add: piexif_load_def dated_lib_def)

lemma parse_field_sample:
  "parse_field (Bytes ''2020:11:07 14:22:01'')
   = Inr \<lparr>year = 2020, month = 11, day = 7, hour = 14, minute = 22, second = 1\<rparr>"
proof -
  have n: "datetime_new 2020 11 7 14 22 1
           = Inr \<lparr>year = 2020, month = 11, day = 7, hour = 14, minute = 22, second = 1\<rparr>"
    by (simp add: date_defs)
  have t: "exif_text \<lparr>year = 2020, month = 11, day = 7, hour = 14, minute = 22, second = 1\<rparr>
           = ascii ''2020:11:07 14:22:01''"
    by (simp add: exif_text_def zfill4 zfill2 digit_char_def ascii_def cp_def)
  from parse_field_exif_text [OF n] show ?thesis
    by (simp only: t map_char_of_ascii)
qed

text \<open>
  C6. \<open>_get_exif_date\<close> returns a value for every file and never raises. When the block
  cannot be loaded it returns None. When the block has a date-time original, the result
  is that field parsed, or None when its value does not parse. When it has none, the
  result is the top-level date-time parsed, or None when that does not parse. When the
  block has neither, the result is None. Parsing reads back every date and time written
  as \<open>YYYY:MM:DD HH:MM:SS\<close>.
\<close>

theorem get_exif_date_reads_original_first:
  "(\<forall>e. piexif_load lib (data img) = Inl e \<longrightarrow> fst (get_exif_date lib img w) = None)
   \<and> (\<forall>d v. piexif_load lib (data img) = Inr d
              \<and> lookup_field d ''Exif'' DateTimeOriginal = Some v \<longrightarrow>
          fst (get_exif_date lib img w) = (case parse_field v of Inr t \<Rightarrow> Some t | Inl e \<Rightarrow> None))
   \<and> (\<forall>d v. piexif_load lib (data img) = Inr d
              \<and> lookup_field d ''Exif'' DateTimeOriginal = None
              \<and> lookup_field d ''0th'' DateTime = Some v \<longrightarrow>
          fst (get_exif_date lib img w) = (case parse_field v of Inr t \<Rightarrow> Some t | Inl e \<Rightarrow> None))
   \<and> (\<forall>d. piexif_load lib (data img) = Inr d
            \<and> lookup_field d ''Exif'' DateTimeOriginal = None
            \<and> lookup_field d ''0th'' DateTime = None \<longrightarrow>
          fst (get_exif_date lib img w) = None)
   \<and> (\<forall>y m dd H M S t. datetime_new y m dd H M S = Inr t \<longrightarrow>
          (\<exists>b. utf8_encode (exif_text t) = Inr b \<and> parse_field (Bytes b) = Inr t))"
  by (auto simp: get_exif_date_load_error get_exif_date_loaded dest: parse_field_exif_text)

theorem get_exif_date_reads_original_first_witness:
  "(\<exists>d. piexif_load dated_lib (data sample_image) = Inr d
        \<and> lookup_field d ''Exif'' DateTimeOriginal = Some (Bytes ''2020:11:07 14:22:01''))
   \<and> fst (get_exif_date dated_lib sample_image empty_world)
      = Some \<lparr>year = 2020, month = 11, day = 7, hour = 14, minute = 22, second = 1\<rparr>"
proof -
  from dated_lib_loads obtain d where d: "piexif_load dated_lib (data sample_image) = Inr d"
    by blast
  note v = dated_lib_sample [OF d]
  from get_exif_date_reads_original_first [of dated_lib sample_image empty_world] d v
  have "fst (get_exif_date dated_lib sample_image empty_world)
        = (case parse_field (Bytes ''2020:11:07 14:22:01'') of Inr t \<Rightarrow> Some t | Inl e \<Rightarrow> None)"
    by blast
  with d v show ?thesis by (auto simp: parse_field_sample)
qed

text \<open>On a dictionary without the section \<open>Exif\<close> the body returns None at once, also
  when the top-level date-time is there; \<open>piexif.load\<close> never returns such a dictionary.\<close>

lemma read_date_fields_no_Exif:
  "d ''Exif'' = None \<Longrightarrow>
   read_date_fields d img w
   = Inr (None, print (ascii ''  No EXIF section found in '' @ name img) w)"
  by (simp add: read_date_fields_def)

lemma piexif_load_has_Exif: "piexif_load lib b = Inr d \<Longrightarrow> d ''Exif'' \<noteq> None"
  using piexif_load_Inr [of lib b d] by auto

section \<open>Text beyond ASCII\<close>

text \<open>A no-break space, written as the bytes C2 A0, separates the date and the time as
  well as a blank does.\<close>

lemma decode_no_break_space:
  "decode_utf8 (Bytes (''2020:11:07'' @ [CHR 0xC2, CHR 0xA0] @ ''14:22:01''))
   = Inr (ascii ''2020:11:07'' @ [160] @ ascii ''14:22:01'')"
  by (simp add: decode_utf8_def cp_def cons_point_def continuation_def ascii_def)

lemma strptime_no_break_space:
  "strptime_exif (ascii ''2020:11:07'' @ [160] @ ascii ''14:22:01'')
   = Inr \<lparr>year = 2020, month = 11, day = 7, hour = 14, minute = 22, second = 1\<rparr>"
  by (simp add: strptime_exif_def regex_exif_def re_match_def then_re_def re_Y_def repeat_re_4
      pure_re_def lit_def char_re_def re_m_def re_d_def re_H_def re_M_def re_S_def alt_re_def
      d2_Cons d1_Cons d2_short one_of_def ascii_def cp_def is_digit_def digit_val_def decimal_def
      decimal_zeros_def int_of_digits_def is_space_def date_defs)

lemma parse_field_no_break_space:
  "parse_field (Bytes (''2020:11:07'' @ [CHR 0xC2, CHR 0xA0] @ ''14:22:01''))
   = Inr \<lparr>year = 2020, month = 11, day = 7, hour = 14, minute = 22, second = 1\<rparr>"
  by (simp only: parse_field_def decode_no_break_space sum.case strptime_no_break_space)

text \<open>The digits of another script are digits for \<open>\d\<close> and for \<open>int\<close>: an hour
  written with the Arabic-Indic digit three, and a year written with fullwidth digits.\<close>

lemma strptime_arabic_indic_digit:
  "strptime_exif (ascii ''2020:11:07 1'' @ [1635] @ ascii '':00:00'')
   = Inr \<lparr>year = 2020, month = 11, day = 7, hour = 13, minute = 0, second = 0\<rparr>"
  by (simp add: strptime_exif_def regex_exif_def re_match_def then_re_def re_Y_def repeat_re_4
      pure_re_def lit_def char_re_def re_m_def re_d_def re_H_def re_M_def re_S_def alt_re_def
      d2_Cons d1_Cons d2_short one_of_def ascii_def cp_def is_digit_def digit_val_def decimal_def
      decimal_zeros_def int_of_digits_def is_space_def date_defs)

lemma extract_date_fullwidth_year:
  "extract_date_from_filename (ascii ''IMG-'' @ [65298, 65296, 65298, 65296] @ ascii ''1107-WA0029.jpg'')
   = Inr (Some sample_date)"
  by (simp add: sample_date_def extract_defs date_defs)

end
